theory Spec2Isabelle
  imports Complex_Main "HOL-Library.Word" "HOL-Library.Monad_Syntax"
begin

section \<open>Machine types and enumerations (Enums.h, Definitions.h)\<close>

type_synonym u8 = "8 word"
type_synonym u16 = "16 word"
type_synonym u32 = "32 word"

text \<open>
  The firmware's \<open>int8_t\<close> variables are kept as 8-bit words; where the source compares
  them as signed numbers the model reads them with \<open>sint\<close>.
\<close>

datatype dealState =
  IDLE | INITIALIZING | DEALING | ADVANCING | AWAITING_PLAYER_DECISION | RESET_DEALR

datatype displayState =
  DISPLAY_UNSET | INTRO_ANIM | SCROLL_PLACE_TAGS_TEXT | SCROLL_PICK_GAME_TEXT
  | SELECT_GAME | SELECT_TOOL | DEAL_CARDS | ERROR | STRUGGLE | LOOK_LEFT | LOOK_RIGHT
  | LOOK_STRAIGHT | FLIP | SCREENSAVER | CUSTOM_FACE

definition CW :: bool where "CW = True"
definition CCW :: bool where "CCW = False"

record Flags1 =
  rotatingCW :: bool
  rotatingCCW :: bool
  correctingCCW :: bool
  correctingCW :: bool
  dealInitialized :: bool
  throwingCard :: bool
  cardDealt :: bool
  numCardsLocked :: bool

record Flags2 =
  blinkingAnimationActive :: bool
  newDealState :: bool
  baselineExceeded :: bool
  fineAdjustCheckStarted :: bool
  initialAnimationInProgress :: bool
  initialAnimationComplete :: bool
  scrollingStarted :: bool
  scrollingComplete :: bool

record Flags3 =
  cardLeftCraw :: bool
  notFirstRoundOfDeal :: bool
  buttonInitialization :: bool
  advanceOnePlayer :: bool
  gameOver :: bool
  postDeal :: bool
  scrollingMenu :: bool
  insideDealrTools :: bool

record Flags4 =
  toolsMenuActive :: bool
  rotatingBackwards :: bool
  postDealRemainderHandled :: bool
  fullExit :: bool
  gamesExit :: bool
  toolsExit :: bool
  errorInProgress :: bool
  currentlyPlayerLeftOfDealer :: bool

record Flags5 =
  playerLeftOfDealerIdentified :: bool
  postDealStartOnRed :: bool
  handlingFlipCard :: bool
  adjustInProgress :: bool

text \<open>\<open>struct RGBColor {r, g, b, avgC}\<close>; the fields are named \<open>colR\<close>, \<open>colG\<close>, \<open>colB\<close> here.\<close>

record RGBColor =
  colR :: u16
  colG :: u16
  colB :: u16
  avgC :: u16

text \<open>One reading of the colour sensor, \<open>sensor.getRawData(&r, &g, &b, &c)\<close>.\<close>

record sample =
  rawR :: u16
  rawG :: u16
  rawB :: u16
  rawC :: u16

text \<open>
  The EEPROM: its cells, and the byte writes made so far in order (address and value),
  oldest first.
\<close>

record eeprom =
  cells :: "nat \<Rightarrow> u8"
  written :: "(nat \<times> u8) list"

text \<open>
  A command to the yaw motor: \<open>rotate(speed, direction)\<close> drives the pins, \<open>rotateStop()\<close>
  releases them.
\<close>

datatype yawCmd = Rotate u8 bool | Stop

text \<open>The game registry holds one game (GameRegistry.h).\<close>

datatype Game = Flip7

record dealr =
  currentDealState :: dealState
  currentDisplayState :: displayState
  previousDisplayState :: displayState
  currentGame :: u8
  currentToolsMenu :: u8
  initialRoundsToDeal :: u8
  remainingRoundsToDeal :: u8
  postCardsToDeal :: u8
  slideStep :: u8
  previousSlideStep :: u8
  overallTimeoutTag :: u32
  errorStartTime :: u32
  throwStart :: u32
  retractStartTime :: u32
  initializationStart :: u32
  expressionStarted :: u32
  adjustStart :: u32
  messageRepetitions :: u8
  colors :: "RGBColor list"
  activeColor :: u8
  previousActiveColor :: u8
  stableColor :: u8
  colorBuffer :: "u8 list"
  colorStatus :: "u8 list"
  colorLeftOfDealer :: u8
  totalCardsToDeal :: u8
  flags1 :: Flags1
  flags2 :: Flags2
  flags3 :: Flags3
  flags4 :: Flags4
  flags5 :: Flags5
  stopped :: bool
  cardInCraw :: bool
  previousCardInCraw :: bool
  currentGamePtr :: "Game option"
  turnsToAdvance :: u8
  lockedFace :: bool
  consecutiveDeals :: u8
  stableColorCount :: u8
  bufferIndex :: u8
  lastDebounceTime :: u32
  lastStepTime :: u32
  retractStarted :: bool
  retractCompleted :: bool
  blackBaseline :: u16
  isCalculated :: bool
  EEPROM :: eeprom
  clock :: "nat \<Rightarrow> u32"
  clockAt :: nat
  crawPin :: "nat \<Rightarrow> bool"
  crawAt :: nat
  sensor :: "nat \<Rightarrow> sample"
  sensorAt :: nat
  displayDone :: "nat \<Rightarrow> bool"
  displayAt :: nat
  yawLog :: "yawCmd list"

text \<open>
  \<open>turnsToAdvance\<close> and \<open>lockedFace\<close> are the members of the \<open>Game\<close> object that the
  dealing engine reads; the fields from \<open>consecutiveDeals\<close> to \<open>isCalculated\<close> are the
  function-local \<open>static\<close> variables of \<open>dealSingleCard\<close>, \<open>colorRead\<close>, \<open>pollCraw\<close>,
  \<open>slideCard\<close>, \<open>handleThrowingTimeout\<close> and \<open>calculateBlackBaseline\<close>.

  The fields from \<open>clock\<close> to \<open>displayAt\<close> are the environment. Every call of \<open>millis()\<close>,
  \<open>digitalRead(CARD_SENS)\<close> and \<open>sensor.getRawData\<close> made by modelled code takes the next
  entry of its input sequence (\<open>clock\<close>, \<open>crawPin\<close>, \<open>sensor\<close>); \<open>crawPin\<close> is \<open>True\<close> for
  HIGH (no card in the beam). \<open>displayDone\<close> tells, for every call of \<open>updateScrollText\<close>
  and of \<open>runAnimation(initialBlinking)\<close>, whether that call reaches the end of the
  scrolling message or of the animation: the text and frame position (\<open>message\<close>,
  \<open>scrollIndex\<close>, \<open>lastScrollTime\<close>, \<open>scrollDelayTime\<close>, the frame counters) is display state
  and is not part of the model, and neither are the writes to the display, the feed servo
  and the flywheel. \<open>yawLog\<close> records the commands sent to the yaw motor, oldest first.
\<close>

definition millis :: "dealr \<Rightarrow> u32 \<times> dealr" where
  "millis s = (clock s (clockAt s), s\<lparr>clockAt := Suc (clockAt s)\<rparr>)"

definition getRawData :: "dealr \<Rightarrow> sample \<times> dealr" where
  "getRawData s = (sensor s (sensorAt s), s\<lparr>sensorAt := Suc (sensorAt s)\<rparr>)"

definition digitalRead_CARD_SENS :: "dealr \<Rightarrow> bool \<times> dealr" where
  "digitalRead_CARD_SENS s = (crawPin s (crawAt s), s\<lparr>crawAt := Suc (crawAt s)\<rparr>)"

definition displayProgress :: "dealr \<Rightarrow> bool \<times> dealr" where
  "displayProgress s = (displayDone s (displayAt s), s\<lparr>displayAt := Suc (displayAt s)\<rparr>)"

section \<open>Constants (ColorNames.h and the main sketch)\<close>

definition NUM_PLAYER_COLORS :: nat where "NUM_PLAYER_COLORS = 8"
definition TOTAL_COLORS :: nat where "TOTAL_COLORS = NUM_PLAYER_COLORS + 1"
definition debounceCount :: nat where "debounceCount = 3"
definition highSpeed :: u8 where "highSpeed = 255"
definition mediumSpeed :: u8 where "mediumSpeed = 220"
definition lowSpeed :: u8 where "lowSpeed = 180"
definition scrollInstructions :: bool where "scrollInstructions = True"
definition debounceInterval :: nat where "debounceInterval = 40"
definition errorTimeout :: nat where "errorTimeout = 6000"
definition throwExpiration :: nat where "throwExpiration = 4000"
definition reverseFeedTime :: nat where "reverseFeedTime = 400"
definition expressionDuration :: nat where "expressionDuration = 500"
definition retractDuration :: nat where "retractDuration = 1000"
definition defaultUVThreshold :: u16 where "defaultUVThreshold = 11"
definition EEPROM_VERSION_ADDR :: nat where "EEPROM_VERSION_ADDR = 0"
definition EEPROM_VERSION :: u8 where "EEPROM_VERSION = 1"
definition sizeof_RGBColor :: nat where "sizeof_RGBColor = 8"
definition UV_THRESHOLD_ADDR :: nat where
  "UV_THRESHOLD_ADDR = TOTAL_COLORS * sizeof_RGBColor + 2"

definition mkColor :: "u16 \<Rightarrow> u16 \<Rightarrow> u16 \<Rightarrow> u16 \<Rightarrow> RGBColor" where
  "mkColor x y z w = \<lparr>colR = x, colG = y, colB = z, avgC = w\<rparr>"

definition defaultColors :: "RGBColor list" where
  "defaultColors =
    [mkColor 58 149 48 118, mkColor 121 105 29 255, mkColor 73 157 25 255,
     mkColor 35 132 89 255, mkColor 41 173 41 255, mkColor 54 138 63 255,
     mkColor 53 136 66 255, mkColor 58 108 89 255, mkColor 37 108 110 255]"

section \<open>Calibration store\<close>

text \<open>
  \<open>EEPROM.read\<close>, \<open>EEPROM.write\<close>, and \<open>EEPROM.put\<close> and \<open>EEPROM.get\<close> for a \<open>uint16_t\<close>
  and for an \<open>RGBColor\<close>: an object is stored byte by byte from its address on, a 16-bit
  value low byte first, the four fields of an \<open>RGBColor\<close> in their order.
\<close>

definition EEPROM_read :: "nat \<Rightarrow> eeprom \<Rightarrow> u8" where
  "EEPROM_read a e = cells e a"

definition EEPROM_write :: "nat \<Rightarrow> u8 \<Rightarrow> eeprom \<Rightarrow> eeprom" where
  "EEPROM_write a v e = e\<lparr>cells := (cells e)(a := v), written := written e @ [(a, v)]\<rparr>"

definition EEPROM_put_u16 :: "nat \<Rightarrow> u16 \<Rightarrow> eeprom \<Rightarrow> eeprom" where
  "EEPROM_put_u16 a w e =
    EEPROM_write (a + 1) (ucast (drop_bit 8 w)) (EEPROM_write a (ucast w) e)"

definition EEPROM_get_u16 :: "nat \<Rightarrow> eeprom \<Rightarrow> u16" where
  "EEPROM_get_u16 a e = word_cat (EEPROM_read (a + 1) e) (EEPROM_read a e)"

definition EEPROM_put_RGBColor :: "nat \<Rightarrow> RGBColor \<Rightarrow> eeprom \<Rightarrow> eeprom" where
  "EEPROM_put_RGBColor a c e =
    EEPROM_put_u16 (a + 6) (avgC c)
      (EEPROM_put_u16 (a + 4) (colB c)
        (EEPROM_put_u16 (a + 2) (colG c)
          (EEPROM_put_u16 a (colR c) e)))"

definition EEPROM_get_RGBColor :: "nat \<Rightarrow> eeprom \<Rightarrow> RGBColor" where
  "EEPROM_get_RGBColor a e =
    \<lparr>colR = EEPROM_get_u16 a e, colG = EEPROM_get_u16 (a + 2) e,
     colB = EEPROM_get_u16 (a + 4) e, avgC = EEPROM_get_u16 (a + 6) e\<rparr>"

definition writeColorToEEPROM :: "nat \<Rightarrow> RGBColor \<Rightarrow> eeprom \<Rightarrow> eeprom" where
  "writeColorToEEPROM index color e =
    EEPROM_put_RGBColor (index * sizeof_RGBColor + 1) color e"

definition readColorFromEEPROM :: "nat \<Rightarrow> eeprom \<Rightarrow> RGBColor" where
  "readColorFromEEPROM index e = EEPROM_get_RGBColor (index * sizeof_RGBColor + 1) e"

definition getBlackColorFromEEPROM :: "eeprom \<Rightarrow> RGBColor" where
  "getBlackColorFromEEPROM e = readColorFromEEPROM 0 e"



text \<open>The loop \<open>for (i = 0; i < TOTAL_COLORS; i++) writeColorToEEPROM(i, defaultColors[i])\<close>.\<close>

definition writeDefaultColors :: "eeprom \<Rightarrow> eeprom" where
  "writeDefaultColors e =
    foldl (\<lambda>m i. writeColorToEEPROM i (defaultColors ! i) m) e [0..<TOTAL_COLORS]"

definition initializeEEPROM :: "eeprom \<Rightarrow> eeprom" where
  "initializeEEPROM e =
    (if EEPROM_read EEPROM_VERSION_ADDR e \<noteq> EEPROM_VERSION
     then EEPROM_write EEPROM_VERSION_ADDR EEPROM_VERSION
            (EEPROM_put_u16 UV_THRESHOLD_ADDR defaultUVThreshold (writeDefaultColors e))
     else e)"

text \<open>An erased EEPROM: every cell reads 0xFF and nothing has been written.\<close>

definition blankEEPROM :: eeprom where
  "blankEEPROM = \<lparr>cells = (\<lambda>_. 255), written = []\<rparr>"

section \<open>Colour classifier: checkForColorSpike and colorRead\<close>

text \<open>
  The source compares \<open>float(c)\<close> with \<open>float(blackBaseline) * 1.6\<close>. The model makes the
  comparison on exact rationals; floating-point rounding is not modelled.
\<close>

definition spikeThreshold :: "u16 \<Rightarrow> rat" where
  "spikeThreshold bl = of_nat (unat bl) * (16 / 10)"

definition checkForColorSpike :: "u16 \<Rightarrow> u16 \<Rightarrow> dealr \<Rightarrow> bool \<times> dealr" where
  "checkForColorSpike c bl s =
    (let s' =
      (if \<not> baselineExceeded (flags2 s) \<and> \<not> adjustInProgress (flags5 s)
          \<and> of_nat (unat c) \<ge> spikeThreshold bl
       then s\<lparr>flags2 := (flags2 s)\<lparr>baselineExceeded := True\<rparr>\<rparr>
       else if baselineExceeded (flags2 s) \<and> of_nat (unat c) < spikeThreshold bl
       then s\<lparr>flags2 := (flags2 s)\<lparr>baselineExceeded := False\<rparr>\<rparr>
       else s)
     in (baselineExceeded (flags2 s'), s'))"

text \<open>
  The flags \<open>checkForColorSpike\<close> returns over a sequence of brightness readings taken
  against one baseline, each call starting from the state the previous one left.
\<close>

fun spikeFlags :: "u16 \<Rightarrow> u16 list \<Rightarrow> dealr \<Rightarrow> bool list" where
  "spikeFlags bl [] s = []"
| "spikeFlags bl (c # cs) s =
    (case checkForColorSpike c bl s of (f, s') \<Rightarrow> f # spikeFlags bl cs s')"

text \<open>
  The distances of \<open>colorRead\<close> are floats. A finite float is a rational number, written
  \<open>Some q\<close>; \<open>None\<close> stands for a value that is not finite. With \<open>r + g + b = 0\<close> the
  normalised channels are infinite or not a number, every distance is the same non-finite
  value and no comparison \<open>distances[i] < minDistance\<close> holds. For a non-zero sum the
  model computes the distances on exact rationals (rounding is not modelled). The sum is
  taken in 16 bits, the width of the board's \<open>unsigned int\<close>.
\<close>

definition float_less :: "rat option \<Rightarrow> rat option \<Rightarrow> bool" where
  "float_less x y = (case (x, y) of (Some p, Some q) \<Rightarrow> p < q | _ \<Rightarrow> False)"

definition colorDistances :: "RGBColor list \<Rightarrow> sample \<Rightarrow> rat option list" where
  "colorDistances cols smp =
    (let total = rawR smp + rawG smp + rawB smp in
     if total = 0 then map (\<lambda>_. None) cols
     else
       let normalizedR = of_nat (unat (rawR smp)) / of_nat (unat total) * 255;
           normalizedG = of_nat (unat (rawG smp)) / of_nat (unat total) * 255;
           normalizedB = of_nat (unat (rawB smp)) / of_nat (unat total) * 255
       in map (\<lambda>c. Some
            ((normalizedR - of_nat (unat (colR c))) * (normalizedR - of_nat (unat (colR c)))
             + (normalizedG - of_nat (unat (colG c))) * (normalizedG - of_nat (unat (colG c)))
             + (normalizedB - of_nat (unat (colB c))) * (normalizedB - of_nat (unat (colB c)))))
          cols)"

text \<open>
  The search \<open>for (i = 1; i < TOTAL_COLORS; i++) if (distances[i] < minDistance) ...\<close>,
  started at \<open>closestColor = 0\<close>, \<open>minDistance = distances[0]\<close>.
\<close>

definition closestStep :: "rat option list \<Rightarrow> nat \<times> rat option \<Rightarrow> nat \<Rightarrow> nat \<times> rat option" where
  "closestStep distances acc i =
    (if float_less (distances ! i) (snd acc) then (i, distances ! i) else acc)"

definition closestColorOf :: "rat option list \<Rightarrow> u8" where
  "closestColorOf distances =
    of_nat (fst (foldl (closestStep distances) (0, distances ! 0) [1..<TOTAL_COLORS]))"

text \<open>
  The rest of \<open>colorRead\<close>, from \<open>colorBuffer[bufferIndex] = closestColor\<close> on: the raw
  classification goes into the circular buffer, and \<open>activeColor\<close> follows \<open>stableColor\<close>
  once \<open>stableColorCount\<close> has reached \<open>debounceCount\<close>. \<open>stableColorCount\<close> is a
  \<open>uint8_t\<close> and wraps.
\<close>

definition debounceColor :: "u8 \<Rightarrow> dealr \<Rightarrow> dealr" where
  "debounceColor closestColor s =
    (let buf = (colorBuffer s)[unat (bufferIndex s) := closestColor];
         isStable = list_all (\<lambda>c. c = closestColor) (take debounceCount buf);
         s1 = s\<lparr>colorBuffer := buf,
                bufferIndex := of_nat ((unat (bufferIndex s) + 1) mod debounceCount)\<rparr>;
         s2 = (if isStable
               then s1\<lparr>stableColor := closestColor, stableColorCount := stableColorCount s1 + 1\<rparr>
               else s1\<lparr>stableColorCount := 0\<rparr>)
     in if unat (stableColorCount s2) \<ge> debounceCount
        then s2\<lparr>activeColor := stableColor s2\<rparr> else s2)"

definition colorRead :: "u16 \<Rightarrow> dealr \<Rightarrow> dealr" where
  "colorRead bl s =
    (case getRawData s of (smp, s1) \<Rightarrow>
      (case checkForColorSpike (rawC smp) bl s1 of (spike, s2) \<Rightarrow>
        debounceColor (closestColorOf (colorDistances (colors s2) smp))
          (s2\<lparr>flags2 := (flags2 s2)\<lparr>baselineExceeded := spike\<rparr>\<rparr>)))"

text \<open>
  The bounds \<open>colorRead\<close> relies on when it indexes \<open>colorBuffer\<close>: the buffer has
  \<open>debounceCount\<close> entries and \<open>bufferIndex\<close> points into it.
\<close>

definition classifierOk :: "dealr \<Rightarrow> bool" where
  "classifierOk s =
    (length (colorBuffer s) = debounceCount \<and> unat (bufferIndex s) < debounceCount)"

text \<open>The classified identities are indices into the colour table.\<close>

definition validColors :: "dealr \<Rightarrow> bool" where
  "validColors s =
    (unat (activeColor s) < TOTAL_COLORS \<and> unat (stableColor s) < TOTAL_COLORS)"

text \<open>A sequence of raw classifications fed to the debounce, oldest first.\<close>

definition debounceRun :: "u8 list \<Rightarrow> dealr \<Rightarrow> dealr" where
  "debounceRun cs s = foldl (\<lambda>st c. debounceColor c st) s cs"

section \<open>Display state\<close>

text \<open>
  Of the display code the model keeps what it does to the variables above.
  \<open>startScrollText\<close> clears \<open>scrollingComplete\<close>; \<open>updateScrollText\<close>, when its call reaches
  the end of the message, counts a repetition and clears \<open>scrollingStarted\<close>;
  \<open>displayFace\<close> only writes to the display.
\<close>

definition startScrollText :: "dealr \<Rightarrow> dealr" where
  "startScrollText s = s\<lparr>flags2 := (flags2 s)\<lparr>scrollingComplete := False\<rparr>\<rparr>"

definition updateScrollText :: "dealr \<Rightarrow> dealr" where
  "updateScrollText s =
    (if currentDisplayState s = SCREENSAVER then s
     else case displayProgress s of (atEnd, s1) \<Rightarrow>
       if atEnd
       then s1\<lparr>messageRepetitions := messageRepetitions s1 + 1,
               flags2 := (flags2 s1)\<lparr>scrollingStarted := False\<rparr>\<rparr>
       else s1)"

definition stopScrollText :: "dealr \<Rightarrow> dealr" where
  "stopScrollText s =
    s\<lparr>messageRepetitions := 0,
      flags2 := (flags2 s)\<lparr>scrollingStarted := False, scrollingComplete := True\<rparr>\<rparr>"

definition scrollMenuText :: "dealr \<Rightarrow> dealr" where
  "scrollMenuText s =
    updateScrollText
      (if \<not> scrollingMenu (flags3 s)
       then (startScrollText s)\<lparr>flags3 := (flags3 s)\<lparr>scrollingMenu := True\<rparr>\<rparr>
       else s)"

text \<open>
  \<open>showGame\<close> scrolls a label longer than four characters and otherwise clears
  \<open>scrollingMenu\<close>. With the one registered game the labels are "1-FLIP7" for
  \<open>currentGame = 0\<close>, "*2-TOOLS" for \<open>currentGame = 1\<close>, and "ERR" or "INV" for any other
  index. Every entry of \<open>toolsMenu\<close> is longer than four characters, so \<open>showTool\<close> scrolls.
\<close>

definition showGame :: "dealr \<Rightarrow> dealr" where
  "showGame s =
    (if currentGame s = 0 \<or> currentGame s = 1 then scrollMenuText s
     else s\<lparr>flags3 := (flags3 s)\<lparr>scrollingMenu := False\<rparr>\<rparr>)"

definition showTool :: "dealr \<Rightarrow> dealr" where
  "showTool s = scrollMenuText s"

definition runAnimation_initialBlinking :: "dealr \<Rightarrow> dealr" where
  "runAnimation_initialBlinking s =
    (case displayProgress s of (atEnd, s1) \<Rightarrow>
      if atEnd
      then s1\<lparr>flags2 := (flags2 s1)\<lparr>initialAnimationComplete := True,
                                      initialAnimationInProgress := False\<rparr>\<rparr>
      else s1)"

text \<open>
  \<open>advanceMenu\<close> as \<open>updateDisplay\<close> calls it, that is in the display states
  \<open>INTRO_ANIM\<close>, \<open>SCROLL_PLACE_TAGS_TEXT\<close> and \<open>SCROLL_PICK_GAME_TEXT\<close>. Its cases for the game
  and tool selection menus are not part of the model.
\<close>

definition advanceMenu :: "dealr \<Rightarrow> dealr" where
  "advanceMenu s0 =
    (let s = s0\<lparr>flags2 := (flags2 s0)\<lparr>scrollingStarted := False, scrollingComplete := False\<rparr>,
                flags3 := (flags3 s0)\<lparr>scrollingMenu := False\<rparr>\<rparr>
     in case currentDisplayState s of
          INTRO_ANIM \<Rightarrow>
            (if scrollInstructions then s\<lparr>currentDisplayState := SCROLL_PLACE_TAGS_TEXT\<rparr>
             else s\<lparr>flags3 := (flags3 s)\<lparr>buttonInitialization := True\<rparr>,
                    currentDisplayState := SELECT_GAME,
                    flags4 := (flags4 s)\<lparr>toolsMenuActive := False\<rparr>\<rparr>)
        | SCROLL_PLACE_TAGS_TEXT \<Rightarrow> s\<lparr>currentDisplayState := SCROLL_PICK_GAME_TEXT\<rparr>
        | SCROLL_PICK_GAME_TEXT \<Rightarrow>
            (if blinkingAnimationActive (flags2 s) then s\<lparr>currentDisplayState := SCREENSAVER\<rparr>
             else s\<lparr>currentDisplayState := SELECT_GAME,
                    flags4 := (flags4 s)\<lparr>toolsMenuActive := False\<rparr>\<rparr>)
        | _ \<Rightarrow> s)"

text \<open>
  \<open>updateDisplay\<close>: the bodies of its cases \<open>SCROLL_PLACE_TAGS_TEXT\<close> and
  \<open>SCROLL_PICK_GAME_TEXT\<close>, then its \<open>switch\<close> statement, then the function.
\<close>

definition case_SCROLL_PLACE_TAGS_TEXT :: "dealr \<Rightarrow> dealr" where
  "case_SCROLL_PLACE_TAGS_TEXT s =
    (if \<not> scrollingStarted (flags2 s) \<and> \<not> scrollingComplete (flags2 s)
     then (let s1 = startScrollText s
           in s1\<lparr>flags2 := (flags2 s1)\<lparr>scrollingStarted := True\<rparr>\<rparr>)
     else if scrollingStarted (flags2 s) \<and> \<not> scrollingComplete (flags2 s)
     then (let s1 = updateScrollText s
           in if unat (messageRepetitions s1) \<ge> 2
              then s1\<lparr>messageRepetitions := 0,
                      flags2 := (flags2 s1)\<lparr>scrollingComplete := True\<rparr>\<rparr>
              else s1)
     else advanceMenu s)"

definition case_SCROLL_PICK_GAME_TEXT :: "dealr \<Rightarrow> dealr" where
  "case_SCROLL_PICK_GAME_TEXT s =
    (let s1 = (if \<not> scrollingStarted (flags2 s) \<and> \<not> scrollingComplete (flags2 s)
               then (let s2 = startScrollText s
                     in s2\<lparr>flags2 := (flags2 s2)\<lparr>scrollingStarted := True\<rparr>\<rparr>)
               else s)
     in if \<not> scrollingComplete (flags2 s1)
        then (let s2 = updateScrollText s1
              in if unat (messageRepetitions s2) \<ge> 2
                 then s2\<lparr>messageRepetitions := 0,
                         flags2 := (flags2 s2)\<lparr>scrollingComplete := True,
                           scrollingStarted := False,
                           blinkingAnimationActive := True\<rparr>\<rparr>
                 else s2)
        else advanceMenu s1)"

definition displaySwitch :: "dealr \<Rightarrow> dealr" where
  "displaySwitch s =
    (case currentDisplayState s of
       INTRO_ANIM \<Rightarrow>
         (if \<not> initialAnimationComplete (flags2 s) then runAnimation_initialBlinking s
          else advanceMenu s)
     | SCROLL_PLACE_TAGS_TEXT \<Rightarrow> case_SCROLL_PLACE_TAGS_TEXT s
     | SCROLL_PICK_GAME_TEXT \<Rightarrow> case_SCROLL_PICK_GAME_TEXT s
     | SELECT_GAME \<Rightarrow> showGame s
     | SELECT_TOOL \<Rightarrow> (if \<not> insideDealrTools (flags3 s) then showTool s else s)
     | ERROR \<Rightarrow> s\<lparr>flags4 := (flags4 s)\<lparr>fullExit := True\<rparr>,
                   currentDealState := RESET_DEALR\<rparr>
     | STRUGGLE \<Rightarrow> (case millis s of (now, s1) \<Rightarrow> s1\<lparr>expressionStarted := now\<rparr>)
     | _ \<Rightarrow> s)"

definition updateDisplay :: "dealr \<Rightarrow> dealr" where
  "updateDisplay s0 =
    (let s = (if currentDisplayState s0 \<noteq> previousDisplayState s0
              then s0\<lparr>flags2 := (flags2 s0)\<lparr>scrollingStarted := False,
                                              scrollingComplete := False\<rparr>,
                      messageRepetitions := 0,
                      previousDisplayState := currentDisplayState s0\<rparr>
              else s0);
         s' = displaySwitch s
     in if scrollingMenu (flags3 s') then updateScrollText s' else s')"

text \<open>
  The variables that no display function writes, as one tuple: the display code changes
  the display states, the scrolling and animation flags, \<open>messageRepetitions\<close>,
  \<open>buttonInitialization\<close>, \<open>toolsMenuActive\<close>, \<open>expressionStarted\<close>, and (in the \<open>ERROR\<close> screen)
  \<open>fullExit\<close> and \<open>currentDealState\<close>.
\<close>

definition engineView where
  "engineView s =
    ((flags1 s, flags5 s, slideStep s, previousSlideStep s, currentToolsMenu s, currentGame s),
     (cardLeftCraw (flags3 s), notFirstRoundOfDeal (flags3 s), advanceOnePlayer (flags3 s),
      gameOver (flags3 s), postDeal (flags3 s), insideDealrTools (flags3 s)),
     (rotatingBackwards (flags4 s), postDealRemainderHandled (flags4 s), gamesExit (flags4 s),
      toolsExit (flags4 s), errorInProgress (flags4 s),
      currentlyPlayerLeftOfDealer (flags4 s)),
     (baselineExceeded (flags2 s), fineAdjustCheckStarted (flags2 s), newDealState (flags2 s)),
     (retractStarted s, retractCompleted s, consecutiveDeals s, throwStart s,
      retractStartTime s, lastStepTime s, lastDebounceTime s, overallTimeoutTag s),
     (remainingRoundsToDeal s, initialRoundsToDeal s, postCardsToDeal s, colorStatus s,
      colorLeftOfDealer s, totalCardsToDeal s, currentGamePtr s, turnsToAdvance s,
      lockedFace s),
     (activeColor s, previousActiveColor s, stableColor s, colorBuffer s, stableColorCount s,
      bufferIndex s, colors s, blackBaseline s, isCalculated s),
     (stopped s, cardInCraw s, previousCardInCraw s, yawLog s, adjustStart s,
      errorStartTime s, initializationStart s),
     (EEPROM s, clock s, crawPin s, crawAt s, sensor s, sensorAt s, displayDone s))"

section \<open>Motion controller\<close>

definition rotate :: "u8 \<Rightarrow> bool \<Rightarrow> dealr \<Rightarrow> dealr" where
  "rotate rotationSpeed direction s0 =
    (let s = s0\<lparr>yawLog := yawLog s0 @ [Rotate rotationSpeed direction]\<rparr>
     in updateDisplay
       (if direction = CW
        then s\<lparr>flags1 := (flags1 s)\<lparr>rotatingCW := True, rotatingCCW := False\<rparr>,
               stopped := False, currentDisplayState := LOOK_LEFT\<rparr>
        else s\<lparr>flags1 := (flags1 s)\<lparr>rotatingCW := False, rotatingCCW := True\<rparr>,
               stopped := False, currentDisplayState := LOOK_RIGHT\<rparr>))"

definition rotateStop :: "dealr \<Rightarrow> dealr" where
  "rotateStop s =
    (if \<not> stopped s
     then s\<lparr>stopped := True,
            flags1 := (flags1 s)\<lparr>rotatingCW := False, rotatingCCW := False\<rparr>,
            yawLog := yawLog s @ [Stop]\<rparr>
     else s)"

section \<open>Colour scan\<close>

definition calculateBlackBaseline :: "dealr \<Rightarrow> u16 \<times> dealr" where
  "calculateBlackBaseline s =
    (let s1 = (if \<not> isCalculated s
               then s\<lparr>blackBaseline := avgC (getBlackColorFromEEPROM (EEPROM s)),
                      isCalculated := True\<rparr>
               else s)
     in (blackBaseline s1, s1))"

definition colorScan :: "dealr \<Rightarrow> dealr" where
  "colorScan s = (case calculateBlackBaseline s of (bl, s1) \<Rightarrow> colorRead bl s1)"

section \<open>Timeouts and reset\<close>

definition handleFineAdjustTimeout :: "dealr \<Rightarrow> dealr" where
  "handleFineAdjustTimeout s0 =
    (case millis s0 of (currentTime, s) \<Rightarrow>
      if unat (currentTime - adjustStart s) > errorTimeout
         \<and> currentDealState s \<noteq> AWAITING_PLAYER_DECISION
      then updateDisplay (s\<lparr>errorStartTime := currentTime, currentDisplayState := ERROR,
                            currentDealState := IDLE\<rparr>)
      else s)"

text \<open>
  \<open>resetFlags\<close>. (\<open>resetColorsSeen\<close> writes \<open>colorsSeen\<close> and \<open>colorsSeenIndexValue\<close> only,
  which nothing in the model reads; its calls are left out.)
\<close>

definition resetFlags :: "dealr \<Rightarrow> dealr" where
  "resetFlags s0 =
    (case millis s0 of (t1, s1) \<Rightarrow>
     case millis s1 of (t2, s) \<Rightarrow>
      s\<lparr>adjustStart := t1,
        overallTimeoutTag := t2,
        flags1 := (flags1 s)\<lparr>dealInitialized := False, cardDealt := False,
          correctingCCW := False, correctingCW := False, numCardsLocked := False,
          rotatingCW := False, rotatingCCW := False, throwingCard := False\<rparr>,
        flags2 := (flags2 s)\<lparr>baselineExceeded := False, blinkingAnimationActive := False,
          fineAdjustCheckStarted := False, initialAnimationComplete := False,
          newDealState := False, initialAnimationInProgress := False,
          scrollingStarted := False, scrollingComplete := False\<rparr>,
        flags3 := (flags3 s)\<lparr>advanceOnePlayer := False, cardLeftCraw := False,
          gameOver := False, insideDealrTools := False, notFirstRoundOfDeal := False,
          postDeal := False, scrollingMenu := False\<rparr>,
        flags4 := (flags4 s)\<lparr>currentlyPlayerLeftOfDealer := False, errorInProgress := False,
          postDealRemainderHandled := False, rotatingBackwards := False\<rparr>,
        flags5 := (flags5 s)\<lparr>postDealStartOnRed := False,
          playerLeftOfDealerIdentified := False\<rparr>,
        colorLeftOfDealer := - 1,
        currentGame := 0,
        currentToolsMenu := 0,
        previousSlideStep := - 1,
        previousCardInCraw := True,
        remainingRoundsToDeal := 0,
        stopped := True,
        slideStep := 0,
        totalCardsToDeal := 0,
        colorStatus := replicate NUM_PLAYER_COLORS (- 1)\<rparr>)"

definition handleResetDealrState :: "dealr \<Rightarrow> dealr" where
  "handleResetDealrState s0 =
    (let s = resetFlags (s0\<lparr>currentGamePtr := None\<rparr>);
         s1 =
          (if fullExit (flags4 s)
           then
             (let a = s\<lparr>currentGame := 0, currentToolsMenu := 0,
                        flags3 := (flags3 s)\<lparr>buttonInitialization := False\<rparr>,
                        flags4 := (flags4 s)\<lparr>toolsMenuActive := False\<rparr>\<rparr>;
                  b = (if scrollInstructions
                       then a\<lparr>currentDisplayState := SCROLL_PLACE_TAGS_TEXT\<rparr>
                       else a\<lparr>flags2 := (flags2 a)\<lparr>initialAnimationComplete := False\<rparr>,
                              currentDisplayState := INTRO_ANIM\<rparr>)
              in b\<lparr>flags4 := (flags4 b)\<lparr>fullExit := False\<rparr>\<rparr>)
           else if gamesExit (flags4 s)
           then s\<lparr>currentToolsMenu := 0,
                  flags3 := (flags3 s)\<lparr>buttonInitialization := True\<rparr>,
                  flags4 := (flags4 s)\<lparr>toolsMenuActive := False, gamesExit := False\<rparr>,
                  currentDisplayState := SELECT_GAME\<rparr>
           else if toolsExit (flags4 s)
           then s\<lparr>currentGame := 0,
                  flags3 := (flags3 s)\<lparr>buttonInitialization := True\<rparr>,
                  flags4 := (flags4 s)\<lparr>toolsMenuActive := True, toolsExit := False\<rparr>,
                  currentDisplayState := SELECT_TOOL\<rparr>
           else s)
     in updateDisplay (s1\<lparr>currentDealState := IDLE\<rparr>))"

section \<open>Dispensing pipeline\<close>

definition pollCraw :: "dealr \<Rightarrow> dealr" where
  "pollCraw s0 =
    (case millis s0 of (currentTime, s) \<Rightarrow>
      if unat (currentTime - lastDebounceTime s) \<ge> debounceInterval
      then
        (case digitalRead_CARD_SENS s of (pin, s1) \<Rightarrow>
          let s2 = s1\<lparr>cardInCraw := pin\<rparr>;
              s3 = (if cardInCraw s2 \<noteq> previousCardInCraw s2
                    then (if \<not> cardInCraw s2
                          then s2\<lparr>flags3 := (flags3 s2)\<lparr>cardLeftCraw := False\<rparr>,
                                  flags1 := (flags1 s2)\<lparr>cardDealt := False\<rparr>\<rparr>
                          else s2\<lparr>flags3 := (flags3 s2)\<lparr>cardLeftCraw := True\<rparr>\<rparr>)
                         \<lparr>previousCardInCraw := cardInCraw s2\<rparr>
                    else s2)
          in s3\<lparr>lastDebounceTime := currentTime\<rparr>)
      else s)"

text \<open>
  \<open>slideCard(uint8_t &amount)\<close>: the model returns the new value of \<open>amount\<close> with the
  state. \<open>amount <= 0\<close> on a \<open>uint8_t\<close> is \<open>amount = 0\<close>.
\<close>

definition slideCard :: "u8 \<Rightarrow> dealr \<Rightarrow> u8 \<times> dealr" where
  "slideCard amount s0 =
    (case millis s0 of (currentTime, s) \<Rightarrow>
      if slideStep s = 0 then
        (let s1 = (if slideStep s \<noteq> previousSlideStep s
                   then s\<lparr>previousSlideStep := slideStep s, lastStepTime := currentTime\<rparr>
                   else s)
         in if cardLeftCraw (flags3 s1)
            then (let s2 = s1\<lparr>flags3 := (flags3 s1)\<lparr>cardLeftCraw := False\<rparr>\<rparr>;
                      amount' = amount - 1
                  in (amount', if amount' = 0 then s2\<lparr>slideStep := 1\<rparr> else s2))
            else (amount, s1))
      else if slideStep s = 1 then
        (amount, s\<lparr>lastStepTime := currentTime, slideStep := 2\<rparr>)
      else if slideStep s = 2 then
        (amount,
         if slideStep s \<noteq> previousSlideStep s
            \<and> unat (currentTime - lastStepTime s) \<ge> reverseFeedTime
         then s\<lparr>previousSlideStep := slideStep s, lastStepTime := currentTime,
                slideStep := 3\<rparr>
         else s)
      else if slideStep s = 3 then
        (amount,
         if slideStep s \<noteq> previousSlideStep s \<and> unat (currentTime - lastStepTime s) \<ge> 100
         then s\<lparr>previousSlideStep := - 1, slideStep := 0,
                flags1 := (flags1 s)\<lparr>throwingCard := False, cardDealt := True\<rparr>,
                overallTimeoutTag := currentTime\<rparr>
         else s)
      else (amount, s))"

definition prepareForDeal :: "dealr \<Rightarrow> dealr" where
  "prepareForDeal s0 =
    (case millis s0 of (currentTime, s) \<Rightarrow>
      s\<lparr>flags1 := (flags1 s)\<lparr>throwingCard := True\<rparr>,
        flags3 := (flags3 s)\<lparr>cardLeftCraw := False\<rparr>,
        throwStart := currentTime, slideStep := 0, previousSlideStep := - 1\<rparr>)"

definition resetThrowCardState :: "dealr \<Rightarrow> dealr" where
  "resetThrowCardState s0 =
    (let s = s0\<lparr>previousSlideStep := - 1, slideStep := 0,
                flags1 := (flags1 s0)\<lparr>throwingCard := False, cardDealt := True\<rparr>\<rparr>
     in case millis s of (now, s1) \<Rightarrow> s1\<lparr>overallTimeoutTag := now\<rparr>)"

text \<open>
  \<open>handleThrowingTimeout\<close>. Its first two \<open>if\<close> statements, which start and finish the
  retract, are \<open>retractSequence\<close>; the third acts once the retract has completed.
\<close>

definition retractSequence :: "u32 \<Rightarrow> dealr \<Rightarrow> dealr" where
  "retractSequence currentTime s =
    (let s1 = (if unat (currentTime - throwStart s) \<ge> throwExpiration
                  \<and> \<not> retractStarted s \<and> \<not> retractCompleted s
               then s\<lparr>retractStarted := True, retractStartTime := currentTime\<rparr>
               else s)
     in if retractStarted s1 \<and> unat (currentTime - retractStartTime s1) \<ge> retractDuration
        then s1\<lparr>retractStarted := False, retractCompleted := True\<rparr>
        else s1)"

definition handleThrowingTimeout :: "u32 \<Rightarrow> dealr \<Rightarrow> dealr" where
  "handleThrowingTimeout currentTime s0 =
    (let s = retractSequence currentTime s0
     in if retractCompleted s
        then
          (let s1 = s\<lparr>retractCompleted := False\<rparr>
           in updateDisplay
             (if currentToolsMenu s1 = 1 then resetThrowCardState s1
              else if currentToolsMenu s1 = 2
              then s1\<lparr>flags4 := (flags4 s1)\<lparr>errorInProgress := True,
                         toolsMenuActive := True, toolsExit := True\<rparr>,
                      currentDisplayState := SELECT_TOOL\<rparr>
              else resetThrowCardState s1))
        else s)"

text \<open>
  \<open>cardDispensingActions\<close>: \<open>dispensingPart\<close> is its body up to the call of
  \<open>handleThrowingTimeout\<close>.
\<close>

definition dispensingPart :: "u32 \<Rightarrow> u8 \<Rightarrow> dealr \<Rightarrow> u8 \<times> dealr" where
  "dispensingPart currentTime amount s =
    (if \<not> throwingCard (flags1 s) then (amount, prepareForDeal s)
     else
       (case slideCard amount (pollCraw s) of (amount', s1) \<Rightarrow>
         (amount',
          if currentDisplayState s1 \<noteq> CUSTOM_FACE
             \<and> unat (currentTime - expressionStarted s1) > expressionDuration
             \<and> \<not> handlingFlipCard (flags5 s1)
          then updateDisplay ((stopScrollText s1)\<lparr>currentDisplayState := STRUGGLE\<rparr>)
          else s1)))"

definition cardDispensingActions :: "u8 \<Rightarrow> dealr \<Rightarrow> u8 \<times> dealr" where
  "cardDispensingActions amount s0 =
    (case millis s0 of (currentTime, s) \<Rightarrow>
      case dispensingPart currentTime amount s of (amount', s1) \<Rightarrow>
        (amount', handleThrowingTimeout currentTime s1))"

text \<open>
  The loop \<open>while (!flags1.cardDealt) { cardDispensingActions(amount); if
  (flags4.errorInProgress) return; }\<close> of \<open>dealSingleCard\<close>, run for at most the given
  number of iterations: \<open>None\<close> when the loop is still running after them.
\<close>

fun dispenseLoop :: "nat \<Rightarrow> u8 \<Rightarrow> dealr \<Rightarrow> dealr option" where
  "dispenseLoop 0 amount s = (if cardDealt (flags1 s) then Some s else None)"
| "dispenseLoop (Suc n) amount s =
    (if cardDealt (flags1 s) then Some s
     else case cardDispensingActions amount s of (amount', s') \<Rightarrow>
       if errorInProgress (flags4 s') then Some s' else dispenseLoop n amount' s')"

definition dealFace :: "dealr \<Rightarrow> dealr" where
  "dealFace s =
    (if currentDisplayState s = LOOK_LEFT \<or> currentDisplayState s = LOOK_RIGHT
     then updateDisplay (s\<lparr>currentDisplayState := LOOK_STRAIGHT\<rparr>)
     else s)"

text \<open>
  \<open>dealSingleCard\<close>: \<open>dealFace\<close> is its first statement (the face is set straight when
  the dealer was looking left or right). \<open>consecutiveDeals\<close> is its static local variable.
  The motor outputs, and so \<open>flywheelOff\<close>, are not part of the state.
\<close>

definition dealSingleCard :: "nat \<Rightarrow> u8 \<Rightarrow> dealr \<Rightarrow> dealr option" where
  "dealSingleCard n amount s0 =
    (let s = dealFace s0
     in if unat (consecutiveDeals s) < 3
        then dispenseLoop n amount s
        else Some (s\<lparr>consecutiveDeals := 0, currentDealState := ADVANCING\<rparr>))"

text \<open>\<open>Game::dispenseCards\<close> (Game.h), by which a game deals.\<close>

definition dispenseCards :: "nat \<Rightarrow> u8 \<Rightarrow> dealr \<Rightarrow> dealr option" where
  "dispenseCards n amount s =
    do { s1 \<leftarrow> dealSingleCard n amount s;
         Some (s1\<lparr>flags1 := (flags1 s1)\<lparr>cardDealt := False\<rparr>\<rparr>) }"

text \<open>
  What happens during one call of \<open>cardDispensingActions\<close>: \<open>beamExit\<close> holds when its
  \<open>pollCraw\<close> sees the beam go from blocked to clear and raises \<open>cardLeftCraw\<close>;
  \<open>timeoutReset\<close> holds when its \<open>handleThrowingTimeout\<close> finds the retract completed and
  calls \<open>resetThrowCardState\<close>. \<open>exitSeen\<close> and \<open>resetSeen\<close> tell whether that happens in some
  iteration of the dispensing loop.
\<close>

definition beamExit :: "dealr \<Rightarrow> bool" where
  "beamExit s0 =
    (case millis s0 of (currentTime, s) \<Rightarrow>
      throwingCard (flags1 s) \<and> \<not> cardLeftCraw (flags3 s)
      \<and> cardLeftCraw (flags3 (pollCraw s)))"

definition timeoutReset :: "u8 \<Rightarrow> dealr \<Rightarrow> bool" where
  "timeoutReset amount s0 =
    (case millis s0 of (currentTime, s) \<Rightarrow>
      case dispensingPart currentTime amount s of (amount', s1) \<Rightarrow>
        retractCompleted (retractSequence currentTime s1) \<and> currentToolsMenu s1 \<noteq> 2)"

fun exitSeen :: "nat \<Rightarrow> u8 \<Rightarrow> dealr \<Rightarrow> bool" where
  "exitSeen 0 amount s = False"
| "exitSeen (Suc n) amount s =
    (if cardDealt (flags1 s) then False
     else case cardDispensingActions amount s of (amount', s') \<Rightarrow>
       beamExit s \<or> (if errorInProgress (flags4 s') then False else exitSeen n amount' s'))"

fun resetSeen :: "nat \<Rightarrow> u8 \<Rightarrow> dealr \<Rightarrow> bool" where
  "resetSeen 0 amount s = False"
| "resetSeen (Suc n) amount s =
    (if cardDealt (flags1 s) then False
     else case cardDispensingActions amount s of (amount', s') \<Rightarrow>
       timeoutReset amount s
       \<or> (if errorInProgress (flags4 s') then False else resetSeen n amount' s'))"

section \<open>The state at the end of setup()\<close>

definition noFlags1 :: Flags1 where
  "noFlags1 = \<lparr>rotatingCW = False, rotatingCCW = False, correctingCCW = False,
     correctingCW = False, dealInitialized = False, throwingCard = False, cardDealt = False,
     numCardsLocked = False\<rparr>"

definition noFlags2 :: Flags2 where
  "noFlags2 = \<lparr>blinkingAnimationActive = False, newDealState = False,
     baselineExceeded = False, fineAdjustCheckStarted = False,
     initialAnimationInProgress = False, initialAnimationComplete = False,
     scrollingStarted = False, scrollingComplete = False\<rparr>"

definition noFlags3 :: Flags3 where
  "noFlags3 = \<lparr>cardLeftCraw = False, notFirstRoundOfDeal = False,
     buttonInitialization = False, advanceOnePlayer = False, gameOver = False,
     postDeal = False, scrollingMenu = False, insideDealrTools = False\<rparr>"

definition noFlags4 :: Flags4 where
  "noFlags4 = \<lparr>toolsMenuActive = False, rotatingBackwards = False,
     postDealRemainderHandled = False, fullExit = False, gamesExit = False,
     toolsExit = False, errorInProgress = False, currentlyPlayerLeftOfDealer = False\<rparr>"

definition noFlags5 :: Flags5 where
  "noFlags5 = \<lparr>playerLeftOfDealerIdentified = False, postDealStartOnRed = False,
     handlingFlipCard = False, adjustInProgress = False\<rparr>"

text \<open>
  The globals as their initialisers and \<open>setup()\<close> leave them on a first power-up (the
  EEPROM initialised from an erased one, the default colour table loaded), with an
  environment that reads 0, HIGH and a dark sensor throughout.
\<close>

definition bootState :: dealr where
  "bootState = \<lparr>
     currentDealState = IDLE, currentDisplayState = INTRO_ANIM,
     previousDisplayState = DISPLAY_UNSET, currentGame = 0, currentToolsMenu = 0,
     initialRoundsToDeal = 0, remainingRoundsToDeal = 0, postCardsToDeal = 52,
     slideStep = 0, previousSlideStep = - 1, overallTimeoutTag = 0, errorStartTime = 0,
     throwStart = 0, retractStartTime = 0, initializationStart = 0, expressionStarted = 0,
     adjustStart = 0, messageRepetitions = 0, colors = defaultColors, activeColor = 0,
     previousActiveColor = - 1, stableColor = 0, colorBuffer = [0, 0, 0],
     colorStatus = replicate NUM_PLAYER_COLORS (- 1), colorLeftOfDealer = 0,
     totalCardsToDeal = 0, flags1 = noFlags1, flags2 = noFlags2, flags3 = noFlags3,
     flags4 = noFlags4, flags5 = noFlags5, stopped = True, cardInCraw = True,
     previousCardInCraw = True, currentGamePtr = None, turnsToAdvance = 0,
     lockedFace = False, consecutiveDeals = 0, stableColorCount = 0, bufferIndex = 0,
     lastDebounceTime = 0, lastStepTime = 0, retractStarted = False,
     retractCompleted = False, blackBaseline = 0, isCalculated = False,
     EEPROM = initializeEEPROM blankEEPROM, clock = (\<lambda>_. 0), clockAt = 0, crawPin = (\<lambda>_. True), crawAt = 0,
     sensor = (\<lambda>_. \<lparr>rawR = 0, rawG = 0, rawB = 0, rawC = 0\<rparr>), sensorAt = 0,
     displayDone = (\<lambda>_. True), displayAt = 0, yawLog = []\<rparr>"

text \<open>
  A card is under way: the flywheel is running and either \<open>cardLeftCraw\<close> is up or
  \<open>slideCard\<close> is past its step 0.
\<close>

definition pending :: "dealr \<Rightarrow> bool" where
  "pending s =
    (throwingCard (flags1 s)
     \<and> (cardLeftCraw (flags3 s) \<or> slideStep s = 1 \<or> slideStep s = 2 \<or> slideStep s = 3))"

section \<open>Moving off and onto a tag\<close>

text \<open>
  The blocking loops are run for at most the given number of iterations; \<open>None\<close> means
  that the loop is still running after them.
\<close>

fun moveOffActiveColor :: "nat \<Rightarrow> bool \<Rightarrow> dealr \<Rightarrow> dealr option" where
  "moveOffActiveColor 0 rotateClockwise s =
    (if activeColor s \<noteq> 0
     then (if errorInProgress (flags4 s) then Some s else None)
     else Some (rotateStop s))"
| "moveOffActiveColor (Suc n) rotateClockwise s =
    (if activeColor s \<noteq> 0
     then (if errorInProgress (flags4 s) then Some s
           else moveOffActiveColor n rotateClockwise
                  (rotate lowSpeed (if rotateClockwise then CW else CCW) (colorScan s)))
     else Some (rotateStop s))"

fun returnToActiveColor :: "nat \<Rightarrow> bool \<Rightarrow> dealr \<Rightarrow> dealr option" where
  "returnToActiveColor 0 rotateClockwise s =
    (if activeColor s = 0
     then (if errorInProgress (flags4 s) then Some s else None)
     else Some (rotateStop s))"
| "returnToActiveColor (Suc n) rotateClockwise s =
    (if activeColor s = 0
     then (if errorInProgress (flags4 s) then Some s
           else returnToActiveColor n rotateClockwise
                  (rotate lowSpeed (if rotateClockwise then CW else CCW) (colorScan s)))
     else Some (rotateStop s))"

definition handleFlipCard :: "nat \<Rightarrow> dealr \<Rightarrow> dealr option" where
  "handleFlipCard n s0 =
    do { s1 \<leftarrow> moveOffActiveColor n CCW
                 (s0\<lparr>flags5 := (flags5 s0)\<lparr>handlingFlipCard := True\<rparr>\<rparr>);
         s2 \<leftarrow> dealSingleCard n 1 (updateDisplay (s1\<lparr>currentDisplayState := FLIP\<rparr>));
         s3 \<leftarrow> returnToActiveColor n CW
                 (s2\<lparr>flags1 := (flags1 s2)\<lparr>cardDealt := False\<rparr>,
                      flags4 := (flags4 s2)\<lparr>postDealRemainderHandled := True\<rparr>\<rparr>);
         Some (s3\<lparr>flags5 := (flags5 s3)\<lparr>handlingFlipCard := False\<rparr>\<rparr>) }"

section \<open>Game hooks (Game.h)\<close>

text \<open>
  \<open>Flip7\<close> overrides neither \<open>onMainDealEnd\<close> nor \<open>requiresFlipCard\<close>, so the base class's
  bodies apply. Of \<open>resetScrollingMessages\<close> the model keeps the writes to the globals.
\<close>

fun requiresFlipCard :: "Game \<Rightarrow> bool" where
  "requiresFlipCard Flip7 = False"

definition onMainDealEnd :: "dealr \<Rightarrow> dealr" where
  "onMainDealEnd s =
    (if sint (postCardsToDeal s) \<le> 0
     then s\<lparr>flags3 := (flags3 s)\<lparr>gameOver := True\<rparr>\<rparr> else s)"

definition resetScrollingMessages :: "dealr \<Rightarrow> dealr" where
  "resetScrollingMessages s =
    (if lockedFace s then s
     else s\<lparr>flags2 := (flags2 s)\<lparr>scrollingComplete := False\<rparr>, messageRepetitions := 0\<rparr>)"

definition Game_onMainDealEnd :: "dealr \<Rightarrow> dealr" where
  "Game_onMainDealEnd s = resetScrollingMessages (onMainDealEnd s)"

definition setDealAmount :: "u8 \<Rightarrow> dealr \<Rightarrow> dealr" where
  "setDealAmount amount s =
    s\<lparr>initialRoundsToDeal := amount, postCardsToDeal := 127, remainingRoundsToDeal := amount\<rparr>"

section \<open>Decisions after a tag has been confirmed\<close>

text \<open>
  The last statement of \<open>handleStandardGameDecisionsAfterFineAdjust\<close>, reached on every
  path that has not returned.
\<close>

definition decideNextState :: "dealr \<Rightarrow> dealr" where
  "decideNextState s =
    (if \<not> postDeal (flags3 s) \<or> \<not> postDealRemainderHandled (flags4 s)
     then s\<lparr>currentDealState := DEALING\<rparr> else s)"

text \<open>
  \<open>activeColor\<close> is a \<open>uint8_t\<close> and \<open>colorLeftOfDealer\<close> an \<open>int8_t\<close>: the assignment keeps
  the bits, the comparison is between the unsigned and the signed value.
\<close>

definition handleStandardGameDecisionsAfterFineAdjust :: "nat \<Rightarrow> dealr \<Rightarrow> dealr option" where
  "handleStandardGameDecisionsAfterFineAdjust n s0 =
    (let s = rotateStop
          (s0\<lparr>flags5 := (flags5 s0)\<lparr>adjustInProgress := False\<rparr>,
               flags2 := (flags2 s0)\<lparr>fineAdjustCheckStarted := False\<rparr>,
               flags1 := (flags1 s0)\<lparr>correctingCW := False, correctingCCW := False\<rparr>\<rparr>)
     in if activeColor s = 1 then
          Some (decideNextState
            (if colorStatus s ! (unat (activeColor s) - 1) = - 1
             then s\<lparr>colorStatus := (colorStatus s)[unat (activeColor s) - 1 := 0],
                    flags3 := (flags3 s)\<lparr>notFirstRoundOfDeal := True\<rparr>\<rparr>
             else s))
        else if unat (activeColor s) > 1 then
          (let s1 = (if \<not> playerLeftOfDealerIdentified (flags5 s)
                     then s\<lparr>flags5 := (flags5 s)\<lparr>playerLeftOfDealerIdentified := True\<rparr>,
                            colorLeftOfDealer := activeColor s\<rparr>
                     else s)
           in if uint (activeColor s1) = sint (colorLeftOfDealer s1)
                 \<and> notFirstRoundOfDeal (flags3 s1)
              then
                (let s2 = s1\<lparr>remainingRoundsToDeal := remainingRoundsToDeal s1 - 1\<rparr>
                 in if remainingRoundsToDeal s2 = 0 \<and> \<not> postDeal (flags3 s2)
                    then
                      (let s3 = s2\<lparr>flags3 := (flags3 s2)\<lparr>postDeal := True\<rparr>\<rparr>;
                           s4 = (case currentGamePtr s3 of
                                   Some g \<Rightarrow> Game_onMainDealEnd s3 | None \<Rightarrow> s3)
                       in if \<not> gameOver (flags3 s4)
                             \<and> (case currentGamePtr s4 of
                                   Some g \<Rightarrow> requiresFlipCard g | None \<Rightarrow> False)
                          then
                            (case handleFlipCard n s4 of
                               None \<Rightarrow> None
                             | Some s5 \<Rightarrow>
                                 if \<not> gameOver (flags3 s5)
                                 then Some (s5\<lparr>currentDealState := AWAITING_PLAYER_DECISION\<rparr>)
                                 else Some (decideNextState s5))
                          else if \<not> gameOver (flags3 s4)
                          then Some (s4\<lparr>flags4 := (flags4 s4)\<lparr>postDealRemainderHandled := True\<rparr>,
                                        currentDealState := AWAITING_PLAYER_DECISION\<rparr>)
                          else Some (decideNextState s4))
                    else Some (decideNextState s2))
              else Some (decideNextState s1))
        else Some (decideNextState s))"

text \<open>
  \<open>handleAdvancingOnePlayer\<close>. Its first loop is \<open>seekTag\<close>; \<open>countTurn\<close> is its part
  from \<open>currentGamePtr->turnsToAdvance--\<close> on. The source dereferences the pointer
  without a test; with no game object the model gives no result.
\<close>

fun seekTag :: "nat \<Rightarrow> dealr \<Rightarrow> dealr option" where
  "seekTag 0 s = (if unat (activeColor s) < 1 then None else Some s)"
| "seekTag (Suc n) s =
    (if unat (activeColor s) < 1 then seekTag n (colorScan (rotate mediumSpeed CW s))
     else Some s)"

definition countTurn :: "nat \<Rightarrow> dealr \<Rightarrow> dealr option" where
  "countTurn n s =
    (case currentGamePtr s of
       None \<Rightarrow> None
     | Some g \<Rightarrow>
         (if unat (turnsToAdvance s - 1) > 0
          then (case moveOffActiveColor n CW (s\<lparr>turnsToAdvance := turnsToAdvance s - 1\<rparr>) of
                  None \<Rightarrow> None
                | Some s1 \<Rightarrow>
                    Some (s1\<lparr>previousActiveColor := activeColor s1,
                             flags3 := (flags3 s1)\<lparr>advanceOnePlayer := True\<rparr>,
                             currentDealState := ADVANCING\<rparr>))
          else Some (s\<lparr>turnsToAdvance := turnsToAdvance s - 1,
                       flags3 := (flags3 s)\<lparr>advanceOnePlayer := False\<rparr>,
                       currentDealState := AWAITING_PLAYER_DECISION\<rparr>)))"

definition handleAdvancingOnePlayer :: "nat \<Rightarrow> dealr \<Rightarrow> dealr option" where
  "handleAdvancingOnePlayer n s0 =
    (case seekTag n s0 of
       None \<Rightarrow> None
     | Some s1 \<Rightarrow>
         (case millis (rotateStop s1) of
            (now, s2) \<Rightarrow>
              countTurn n
                (s2\<lparr>adjustStart := now,
                    flags2 := (flags2 s2)\<lparr>fineAdjustCheckStarted := False\<rparr>,
                    flags1 := (flags1 s2)\<lparr>correctingCW := False, correctingCCW := False\<rparr>,
                    flags5 := (flags5 s2)\<lparr>adjustInProgress := False\<rparr>\<rparr>)))"

text \<open>
  \<open>displayErrorMessage\<close>: \<open>scrollLoop\<close> is its loop \<open>while (!flags2.scrollingComplete)\<close>.
\<close>

fun scrollLoop :: "nat \<Rightarrow> dealr \<Rightarrow> dealr option" where
  "scrollLoop 0 s = (if scrollingComplete (flags2 s) then Some s else None)"
| "scrollLoop (Suc n) s =
    (if scrollingComplete (flags2 s) then Some s
     else (let s1 = updateScrollText s
           in scrollLoop n
                (if unat (messageRepetitions s1) > 0
                 then s1\<lparr>flags2 := (flags2 s1)\<lparr>scrollingComplete := True\<rparr>\<rparr>
                 else s1)))"

definition displayErrorMessage :: "nat \<Rightarrow> dealr \<Rightarrow> dealr option" where
  "displayErrorMessage n s0 =
    do { s1 \<leftarrow> scrollLoop n
                 (if \<not> scrollingStarted (flags2 s0)
                  then startScrollText (s0\<lparr>flags2 := (flags2 s0)\<lparr>scrollingStarted := True\<rparr>\<rparr>)
                  else s0);
         Some (updateDisplay (s1\<lparr>currentDealState := RESET_DEALR\<rparr>)) }"

text \<open>
  The loop \<open>while (!flags2.scrollingComplete) displayErrorMessage("EROR NEED TAGS")\<close> of
  \<open>handleAdvancingStateInAdjust\<close>.
\<close>

fun errorLoop :: "nat \<Rightarrow> nat \<Rightarrow> dealr \<Rightarrow> dealr option" where
  "errorLoop 0 n s = (if scrollingComplete (flags2 s) then Some s else None)"
| "errorLoop (Suc k) n s =
    (if scrollingComplete (flags2 s) then Some s
     else do { s1 \<leftarrow> displayErrorMessage n s; errorLoop k n s1 })"

definition handleAdvancingStateInAdjust :: "nat \<Rightarrow> dealr \<Rightarrow> dealr option" where
  "handleAdvancingStateInAdjust n s0 =
    (let s = s0\<lparr>flags5 := (flags5 s0)\<lparr>adjustInProgress := False\<rparr>,
                flags2 := (flags2 s0)\<lparr>fineAdjustCheckStarted := False\<rparr>,
                flags1 := (flags1 s0)\<lparr>correctingCW := False, correctingCCW := False\<rparr>\<rparr>
     in if advanceOnePlayer (flags3 s) then handleAdvancingOnePlayer n s
        else if activeColor s = 1 \<and> previousActiveColor s = 1 \<and> \<not> postDeal (flags3 s)
        then
          do { s1 \<leftarrow> errorLoop n n (s\<lparr>flags4 := (flags4 s)\<lparr>errorInProgress := True\<rparr>\<rparr>);
               Some (s1\<lparr>flags2 := (flags2 s1)\<lparr>scrollingComplete := False\<rparr>,
                        messageRepetitions := 0,
                        flags4 := (flags4 s1)\<lparr>fullExit := True\<rparr>,
                        currentDealState := RESET_DEALR\<rparr>) }
        else handleStandardGameDecisionsAfterFineAdjust n s)"

text \<open>
  A sequence of tags confirmed one after the other during a deal: for each, the
  classifier's \<open>activeColor\<close> is the tag and \<open>handleStandardGameDecisionsAfterFineAdjust\<close>
  runs.
\<close>

fun confirmTags :: "nat \<Rightarrow> u8 list \<Rightarrow> dealr \<Rightarrow> dealr option" where
  "confirmTags n [] s = Some s"
| "confirmTags n (c # cs) s =
    do { s1 \<leftarrow> handleStandardGameDecisionsAfterFineAdjust n (s\<lparr>activeColor := c\<rparr>);
         confirmTags n cs s1 }"

text \<open>
  The variables that the dispensing pipeline reads and writes, as one tuple, and the
  state and the counter that one call of \<open>cardDispensingActions\<close> leaves.
\<close>

definition dispenseView where
  "dispenseView s =
    ((throwingCard (flags1 s), cardDealt (flags1 s), cardLeftCraw (flags3 s),
      errorInProgress (flags4 s), handlingFlipCard (flags5 s), scrollingMenu (flags3 s)),
     (slideStep s, previousSlideStep s, currentToolsMenu s, consecutiveDeals s),
     (throwStart s, lastStepTime s, lastDebounceTime s, retractStartTime s,
      expressionStarted s),
     (retractStarted s, retractCompleted s, previousCardInCraw s),
     (currentDisplayState s, previousDisplayState s),
     (clockAt s, crawAt s))"

definition afterCall :: "u8 \<Rightarrow> dealr \<Rightarrow> dealr" where
  "afterCall amount s = snd (cardDispensingActions amount s)"

definition amountAfterCall :: "u8 \<Rightarrow> dealr \<Rightarrow> u8" where
  "amountAfterCall amount s = fst (cardDispensingActions amount s)"

section \<open>Example environments\<close>

text \<open>An input sequence given by a list, continued with a default value.\<close>

definition tape :: "'a list \<Rightarrow> 'a \<Rightarrow> nat \<Rightarrow> 'a" where
  "tape xs d n = (if n < length xs then xs ! n else d)"

text \<open>
  A deal in which the card passes the beam: the beam reads blocked at the second call of
  \<open>cardDispensingActions\<close> and clear again at the third.
\<close>

definition passingDeal :: dealr where
  "passingDeal = bootState\<lparr>
     clock := tape [1000, 1000, 1100, 1100, 1100, 1100, 1200, 1200, 1200,
                    1300, 1300, 1300, 1800, 1800, 1800, 2000, 2000, 2000] 2000,
     crawPin := tape [False] True\<rparr>"

text \<open>
  A deal in which no card ever reaches the beam: the clock reads 1000 in the first call,
  5000 in the second and 6000 in the third.
\<close>

definition stalledDeal :: dealr where
  "stalledDeal = bootState\<lparr>
     clock := tape [1000, 1000, 5000, 5000, 5000, 5000, 6000, 6000, 6000, 6000, 6000] 6000\<rparr>"

section \<open>Theorems\<close>

subsection \<open>What the display code leaves alone\<close>

lemma engineViewD:
  assumes "engineView s' = engineView s"
  shows "flags1 s' = flags1 s" "flags5 s' = flags5 s" "slideStep s' = slideStep s"
    "previousSlideStep s' = previousSlideStep s" "currentToolsMenu s' = currentToolsMenu s"
    "currentGame s' = currentGame s"
    "cardLeftCraw (flags3 s') = cardLeftCraw (flags3 s)"
    "notFirstRoundOfDeal (flags3 s') = notFirstRoundOfDeal (flags3 s)"
    "advanceOnePlayer (flags3 s') = advanceOnePlayer (flags3 s)"
    "gameOver (flags3 s') = gameOver (flags3 s)"
    "postDeal (flags3 s') = postDeal (flags3 s)"
    "insideDealrTools (flags3 s') = insideDealrTools (flags3 s)"
    "rotatingBackwards (flags4 s') = rotatingBackwards (flags4 s)"
    "postDealRemainderHandled (flags4 s') = postDealRemainderHandled (flags4 s)"
    "gamesExit (flags4 s') = gamesExit (flags4 s)"
    "toolsExit (flags4 s') = toolsExit (flags4 s)"
    "errorInProgress (flags4 s') = errorInProgress (flags4 s)"
    "currentlyPlayerLeftOfDealer (flags4 s') = currentlyPlayerLeftOfDealer (flags4 s)"
    "baselineExceeded (flags2 s') = baselineExceeded (flags2 s)"
    "fineAdjustCheckStarted (flags2 s') = fineAdjustCheckStarted (flags2 s)"
    "newDealState (flags2 s') = newDealState (flags2 s)"
    "retractStarted s' = retractStarted s" "retractCompleted s' = retractCompleted s"
    "consecutiveDeals s' = consecutiveDeals s" "throwStart s' = throwStart s"
    "retractStartTime s' = retractStartTime s" "lastStepTime s' = lastStepTime s"
    "lastDebounceTime s' = lastDebounceTime s" "overallTimeoutTag s' = overallTimeoutTag s"
    "remainingRoundsToDeal s' = remainingRoundsToDeal s"
    "initialRoundsToDeal s' = initialRoundsToDeal s"
    "postCardsToDeal s' = postCardsToDeal s" "colorStatus s' = colorStatus s"
    "colorLeftOfDealer s' = colorLeftOfDealer s" "totalCardsToDeal s' = totalCardsToDeal s"
    "currentGamePtr s' = currentGamePtr s" "turnsToAdvance s' = turnsToAdvance s"
    "lockedFace s' = lockedFace s"
    "activeColor s' = activeColor s" "previousActiveColor s' = previousActiveColor s"
    "stableColor s' = stableColor s" "colorBuffer s' = colorBuffer s"
    "stableColorCount s' = stableColorCount s" "bufferIndex s' = bufferIndex s"
    "colors s' = colors s" "blackBaseline s' = blackBaseline s"
    "isCalculated s' = isCalculated s"
    "stopped s' = stopped s" "cardInCraw s' = cardInCraw s"
    "previousCardInCraw s' = previousCardInCraw s" "yawLog s' = yawLog s"
    "adjustStart s' = adjustStart s" "errorStartTime s' = errorStartTime s"
    "initializationStart s' = initializationStart s"
    "EEPROM s' = EEPROM s" "clock s' = clock s" "crawPin s' = crawPin s"
    "crawAt s' = crawAt s" "sensor s' = sensor s" "sensorAt s' = sensorAt s"
    "displayDone s' = displayDone s"
  using assms by (simp_all add: engineView_def)

lemma view_startScrollText: "engineView (startScrollText s) = engineView s"
  by (simp add: engineView_def startScrollText_def)

lemma view_updateScrollText: "engineView (updateScrollText s) = engineView s"
  by (simp add: engineView_def updateScrollText_def displayProgress_def)

lemma view_stopScrollText: "engineView (stopScrollText s) = engineView s"
  by (simp add: engineView_def stopScrollText_def)

lemma view_scrollMenuText: "engineView (scrollMenuText s) = engineView s"
  by (simp add: scrollMenuText_def view_updateScrollText)
     (simp add: engineView_def startScrollText_def)

lemma view_showGame: "engineView (showGame s) = engineView s"
  by (simp add: showGame_def view_scrollMenuText) (simp add: engineView_def)

lemma view_showTool: "engineView (showTool s) = engineView s"
  by (simp add: showTool_def view_scrollMenuText)

lemma view_runAnimation: "engineView (runAnimation_initialBlinking s) = engineView s"
  by (simp add: engineView_def runAnimation_initialBlinking_def displayProgress_def)

lemma view_advanceMenu: "engineView (advanceMenu s) = engineView s"
  by (simp add: engineView_def advanceMenu_def Let_def split: displayState.split)

lemma view_case_SCROLL_PLACE_TAGS_TEXT:
  "engineView (case_SCROLL_PLACE_TAGS_TEXT s) = engineView s"
proof -
  have a: "\<And>x v. engineView (x\<lparr>flags2 := (flags2 x)\<lparr>scrollingStarted := v\<rparr>\<rparr>) = engineView x"
    by (simp add: engineView_def)
  have b: "\<And>x. engineView (x\<lparr>messageRepetitions := 0,
      flags2 := (flags2 x)\<lparr>scrollingComplete := True\<rparr>\<rparr>) = engineView x"
    by (simp add: engineView_def)
  show ?thesis
    by (simp add: case_SCROLL_PLACE_TAGS_TEXT_def Let_def a b view_startScrollText
        view_updateScrollText view_advanceMenu)
qed

lemma view_case_SCROLL_PICK_GAME_TEXT:
  "engineView (case_SCROLL_PICK_GAME_TEXT s) = engineView s"
proof -
  let ?s1 = "(if \<not> scrollingStarted (flags2 s) \<and> \<not> scrollingComplete (flags2 s)
                then (let s2 = startScrollText s
                      in s2\<lparr>flags2 := (flags2 s2)\<lparr>scrollingStarted := True\<rparr>\<rparr>)
                else s)"
  have a: "\<And>x v. engineView (x\<lparr>flags2 := (flags2 x)\<lparr>scrollingStarted := v\<rparr>\<rparr>) = engineView x"
    by (simp add: engineView_def)
  have b: "\<And>x. engineView (x\<lparr>messageRepetitions := 0,
      flags2 := (flags2 x)\<lparr>scrollingComplete := True, scrollingStarted := False,
        blinkingAnimationActive := True\<rparr>\<rparr>) = engineView x"
    by (simp add: engineView_def)
  have v1: "engineView ?s1 = engineView s"
    by (simp add: Let_def a view_startScrollText)
  have "\<And>x. engineView (if \<not> scrollingComplete (flags2 x)
         then (let s2 = updateScrollText x
               in if unat (messageRepetitions s2) \<ge> 2
                  then s2\<lparr>messageRepetitions := 0,
                          flags2 := (flags2 s2)\<lparr>scrollingComplete := True,
                            scrollingStarted := False,
                            blinkingAnimationActive := True\<rparr>\<rparr>
                  else s2)
         else advanceMenu x) = engineView x"
    by (simp add: Let_def b view_updateScrollText view_advanceMenu)
  then show ?thesis using v1 by (simp add: case_SCROLL_PICK_GAME_TEXT_def Let_def)
qed

lemma view_displaySwitch: "engineView (displaySwitch s) = engineView s"
proof -
  have e: "\<And>x. engineView (x\<lparr>flags4 := (flags4 x)\<lparr>fullExit := True\<rparr>,
                        currentDealState := RESET_DEALR\<rparr>) = engineView x"
    by (simp add: engineView_def)
  have st: "\<And>x. engineView (case millis x of (now, s1) \<Rightarrow> s1\<lparr>expressionStarted := now\<rparr>)
      = engineView x"
    by (simp add: engineView_def millis_def)
  show ?thesis
    by (cases "currentDisplayState s")
       (simp_all add: displaySwitch_def e st view_runAnimation view_advanceMenu view_showGame
         view_showTool view_case_SCROLL_PLACE_TAGS_TEXT view_case_SCROLL_PICK_GAME_TEXT)
qed

lemma view_updateDisplay: "engineView (updateDisplay s) = engineView s"
proof -
  have v0: "engineView (if currentDisplayState s \<noteq> previousDisplayState s
              then s\<lparr>flags2 := (flags2 s)\<lparr>scrollingStarted := False,
                                              scrollingComplete := False\<rparr>,
                      messageRepetitions := 0,
                      previousDisplayState := currentDisplayState s\<rparr>
              else s) = engineView s" by (simp add: engineView_def)
  show ?thesis
    by (simp add: updateDisplay_def Let_def view_updateScrollText view_displaySwitch v0)
qed

lemmas updateDisplay_frame = engineViewD[OF view_updateDisplay]

subsection \<open>Debounce\<close>

lemma len3: "length xs = 3 \<Longrightarrow> \<exists>a b c. xs = [a, b, c]"
  by (cases xs; simp; rename_tac y ys; case_tac ys; simp; rename_tac z zs; case_tac zs; simp)

lemma idx3: "unat (i :: u8) < 3 \<Longrightarrow> i = 0 \<or> i = 1 \<or> i = 2"
  by unat_arith

lemma classifierOk_debounceColor:
  "classifierOk s \<Longrightarrow> classifierOk (debounceColor c s)"
  by (auto simp: classifierOk_def debounceColor_def Let_def debounceCount_def unat_of_nat)

lemma classifierOk_debounceRun:
  "classifierOk s \<Longrightarrow> classifierOk (debounceRun cs s)"
  unfolding debounceRun_def
  by (induction cs arbitrary: s) (simp_all add: classifierOk_debounceColor)

lemma debounceRun_append:
  "debounceRun (xs @ ys) s = debounceRun ys (debounceRun xs s)"
  by (simp add: debounceRun_def)

lemma debounceRun_snoc: "debounceRun (xs @ [c]) s = debounceColor c (debounceRun xs s)"
  by (simp add: debounceRun_def)

lemma debounceRun_Nil: "debounceRun [] s = s"
  by (simp add: debounceRun_def)

lemma active_when_counted:
  "3 \<le> unat (stableColorCount (debounceColor c s)) \<Longrightarrow> activeColor (debounceColor c s) = c"
  by (auto simp: debounceColor_def Let_def debounceCount_def split: if_splits)

lemma active_kept:
  "unat (stableColorCount (debounceColor c s)) < 3 \<Longrightarrow>
   activeColor (debounceColor c s) = activeColor s"
  by (auto simp: debounceColor_def Let_def debounceCount_def split: if_splits)

lemma buffer_step:
  "colorBuffer (debounceColor c s) = (colorBuffer s)[unat (bufferIndex s) := c]"
  "bufferIndex (debounceColor c s) = of_nat ((unat (bufferIndex s) + 1) mod 3)"
  by (simp_all add: debounceColor_def Let_def debounceCount_def)

lemma count_nonzero:
  assumes "classifierOk s" "stableColorCount (debounceColor c s) \<noteq> 0"
  shows "colorBuffer (debounceColor c s) = [c, c, c]
     \<and> stableColorCount (debounceColor c s) = stableColorCount s + 1
     \<and> stableColor (debounceColor c s) = c"
proof -
  from assms(1) obtain x y z where b: "colorBuffer s = [x, y, z]"
    using len3[of "colorBuffer s"] by (auto simp: classifierOk_def debounceCount_def)
  from assms(1) have "bufferIndex s = 0 \<or> bufferIndex s = 1 \<or> bufferIndex s = 2"
    using idx3[of "bufferIndex s"] by (auto simp: classifierOk_def debounceCount_def)
  then show ?thesis using assms(2) b
    by (auto simp: debounceColor_def Let_def debounceCount_def split: if_splits)
qed

lemma stable_when_full:
  assumes "colorBuffer (debounceColor c s) = [c, c, c]"
  shows "stableColorCount (debounceColor c s) = stableColorCount s + 1
     \<and> stableColor (debounceColor c s) = c"
proof -
  have "(colorBuffer s)[unat (bufferIndex s) := c] = [c, c, c]"
    using assms by (simp add: buffer_step)
  then show ?thesis
    by (simp add: debounceColor_def Let_def debounceCount_def)
qed

lemma three_fill:
  assumes "classifierOk s"
  shows "colorBuffer (debounceColor x (debounceColor x (debounceColor x s))) = [x, x, x]"
proof -
  from assms(1) obtain a b c where b: "colorBuffer s = [a, b, c]"
    using len3[of "colorBuffer s"] by (auto simp: classifierOk_def debounceCount_def)
  from assms(1) have "bufferIndex s = 0 \<or> bufferIndex s = 1 \<or> bufferIndex s = 2"
    using idx3[of "bufferIndex s"] by (auto simp: classifierOk_def debounceCount_def)
  then show ?thesis using b
    by (auto simp: buffer_step)
qed

lemma full_stays_full:
  assumes "classifierOk s" "colorBuffer s = [x, x, x]"
  shows "colorBuffer (debounceColor x s) = [x, x, x]"
proof -
  from assms(1) have "bufferIndex s = 0 \<or> bufferIndex s = 1 \<or> bufferIndex s = 2"
    using idx3[of "bufferIndex s"] by (auto simp: classifierOk_def debounceCount_def)
  then show ?thesis using assms(2) by (auto simp: buffer_step)
qed

lemma same_as_full:
  assumes "classifierOk s" "colorBuffer s = [y, y, y]"
    and "colorBuffer (debounceColor x s) = [x, x, x]"
  shows "x = y"
proof -
  from assms(1) have "bufferIndex s = 0 \<or> bufferIndex s = 1 \<or> bufferIndex s = 2"
    using idx3[of "bufferIndex s"] by (auto simp: classifierOk_def debounceCount_def)
  then show ?thesis using assms(2,3) by (auto simp: buffer_step)
qed

lemma u8_lt3: "unat (c :: u8) < 3 \<Longrightarrow> c = 0 \<or> c = 1 \<or> c = 2"
  by unat_arith

lemma four_counts:
  assumes "unat (c :: u8) < 3" "unat (c + 1) < 3" "unat (c + 1 + 1) < 3"
    "unat (c + 1 + 1 + 1) < 3"
  shows False
proof -
  from u8_lt3[OF assms(1)] show False
    using assms(2,3,4) by auto
qed

lemma count_pred: "3 \<le> unat ((c :: u8) + 1) \<Longrightarrow> 2 \<le> unat c"
  by unat_arith

lemma count_pred2: "2 \<le> unat ((c :: u8) + 1) \<Longrightarrow> 1 \<le> unat c"
  by unat_arith

lemma stable_after_three:
  assumes ok: "classifierOk s"
  shows "stableColor (debounceRun [x, x, x] s) = x
       \<and> colorBuffer (debounceRun [x, x, x] s) = [x, x, x]"
proof -
  let ?s2 = "debounceColor x (debounceColor x s)"
  have full: "colorBuffer (debounceColor x ?s2) = [x, x, x]"
    using three_fill[OF ok] .
  from stable_when_full[OF full] full show ?thesis
    by (simp add: debounceRun_def)
qed

lemma five_same:
  assumes ok: "classifierOk s"
  shows "activeColor (debounceRun [x, x, x, x, x] s) = x"
proof -
  define s1 where "s1 = debounceColor x s"
  define s2 where "s2 = debounceColor x s1"
  define s3 where "s3 = debounceColor x s2"
  define s4 where "s4 = debounceColor x s3"
  define s5 where "s5 = debounceColor x s4"
  have ok1: "classifierOk s1" and ok2: "classifierOk s2" and ok3: "classifierOk s3"
    and ok4: "classifierOk s4"
    using ok by (simp_all add: s1_def s2_def s3_def s4_def classifierOk_debounceColor)
  have b3: "colorBuffer s3 = [x, x, x]"
    using three_fill[OF ok] by (simp add: s1_def s2_def s3_def)
  have b4: "colorBuffer s4 = [x, x, x]"
    using full_stays_full[OF ok3 b3] by (simp add: s4_def)
  have b5: "colorBuffer s5 = [x, x, x]"
    using full_stays_full[OF ok4 b4] by (simp add: s5_def)
  have c3: "stableColorCount s3 = stableColorCount s2 + 1"
    using stable_when_full[of x s2] b3 by (simp add: s3_def)
  have c4: "stableColorCount s4 = stableColorCount s3 + 1"
    using stable_when_full[of x s3] b4 by (simp add: s4_def)
  have c5: "stableColorCount s5 = stableColorCount s4 + 1"
    using stable_when_full[of x s4] b5 by (simp add: s5_def)
  have a2: "3 \<le> unat (stableColorCount s2) \<Longrightarrow> activeColor s2 = x"
    using active_when_counted[of x s1] by (simp add: s2_def)
  have a3: "3 \<le> unat (stableColorCount s3) \<Longrightarrow> activeColor s3 = x"
    using active_when_counted[of x s2] by (simp add: s3_def)
  have a4: "3 \<le> unat (stableColorCount s4) \<Longrightarrow> activeColor s4 = x"
    using active_when_counted[of x s3] by (simp add: s4_def)
  have a5: "3 \<le> unat (stableColorCount s5) \<Longrightarrow> activeColor s5 = x"
    using active_when_counted[of x s4] by (simp add: s5_def)
  have k3: "unat (stableColorCount s3) < 3 \<Longrightarrow> activeColor s3 = activeColor s2"
    using active_kept[of x s2] by (simp add: s3_def)
  have k4: "unat (stableColorCount s4) < 3 \<Longrightarrow> activeColor s4 = activeColor s3"
    using active_kept[of x s3] by (simp add: s4_def)
  have k5: "unat (stableColorCount s5) < 3 \<Longrightarrow> activeColor s5 = activeColor s4"
    using active_kept[of x s4] by (simp add: s5_def)
  have "activeColor s5 = x"
  proof (cases "3 \<le> unat (stableColorCount s5)")
    case True then show ?thesis by (rule a5)
  next
    case n5: False
    show ?thesis
    proof (cases "3 \<le> unat (stableColorCount s4)")
      case True then show ?thesis using n5 k5 a4 by simp
    next
      case n4: False
      show ?thesis
      proof (cases "3 \<le> unat (stableColorCount s3)")
        case True then show ?thesis using n5 n4 k5 k4 a3 by simp
      next
        case n3: False
        have "3 \<le> unat (stableColorCount s2)"
          using four_counts[of "stableColorCount s2"] n3 n4 n5 c3 c4 c5
          by (cases "3 \<le> unat (stableColorCount s2)") simp_all
        then show ?thesis using n5 n4 n3 k5 k4 k3 a2 by simp
      qed
    qed
  qed
  then show ?thesis
    by (simp add: debounceRun_def s1_def s2_def s3_def s4_def s5_def)
qed

lemma same_run_keeps:
  assumes ok: "classifierOk s" and full: "colorBuffer s = [x, x, x]"
    and act: "activeColor s = x" and st: "stableColor s = x"
  shows "activeColor (debounceColor x s) = x \<and> stableColor (debounceColor x s) = x
       \<and> colorBuffer (debounceColor x s) = [x, x, x]"
proof -
  have b: "colorBuffer (debounceColor x s) = [x, x, x]"
    using full_stays_full[OF ok full] .
  have "activeColor (debounceColor x s) = x"
    using active_when_counted[of x s] active_kept[of x s] act
    by (cases "3 \<le> unat (stableColorCount (debounceColor x s))") simp_all
  then show ?thesis using b stable_when_full[OF b] by simp
qed

lemma many_same:
  assumes ok: "classifierOk s"
  shows "activeColor (debounceRun (replicate (5 + k) x) s) = x
       \<and> stableColor (debounceRun (replicate (5 + k) x) s) = x
       \<and> colorBuffer (debounceRun (replicate (5 + k) x) s) = [x, x, x]"
proof (induction k)
  case 0
  have r5: "replicate 5 x = [x, x, x] @ [x, x]"
    by (simp add: numeral_eq_Suc)
  let ?t = "debounceRun [x, x, x] s"
  have okt: "classifierOk ?t" using ok by (rule classifierOk_debounceRun)
  have t: "stableColor ?t = x" "colorBuffer ?t = [x, x, x]"
    using stable_after_three[OF ok] by simp_all
  let ?t1 = "debounceColor x ?t"
  have okt1: "classifierOk ?t1" using okt by (rule classifierOk_debounceColor)
  have b1: "colorBuffer ?t1 = [x, x, x]" using full_stays_full[OF okt t(2)] .
  have b2: "colorBuffer (debounceColor x ?t1) = [x, x, x]"
    using full_stays_full[OF okt1 b1] .
  have run5: "debounceRun (replicate 5 x) s = debounceColor x ?t1"
    by (simp add: r5 debounceRun_def)
  have "activeColor (debounceRun [x, x, x, x, x] s) = x" using five_same[OF ok] .
  moreover have "debounceRun [x, x, x, x, x] s = debounceColor x ?t1"
    by (simp add: debounceRun_def)
  ultimately show ?case using run5 b2 stable_when_full[OF b2] by simp
next
  case (Suc k)
  let ?t = "debounceRun (replicate (5 + k) x) s"
  have okt: "classifierOk ?t" using ok by (rule classifierOk_debounceRun)
  have "replicate (5 + Suc k) x = replicate (5 + k) x @ [x]"
    by (metis add_Suc_right replicate_Suc replicate_append_same)
  then have "debounceRun (replicate (5 + Suc k) x) s = debounceColor x ?t"
    by (simp add: debounceRun_snoc)
  then show ?case using same_run_keeps[OF okt] Suc.IH by simp
qed

lemma stable_many:
  assumes ok: "classifierOk s"
  shows "stableColor (debounceRun (replicate (3 + k) x) s) = x
       \<and> colorBuffer (debounceRun (replicate (3 + k) x) s) = [x, x, x]"
proof (induction k)
  case 0
  have "replicate 3 x = [x, x, x]" by (simp add: numeral_eq_Suc)
  then show ?case using stable_after_three[OF ok] by simp
next
  case (Suc k)
  let ?t = "debounceRun (replicate (3 + k) x) s"
  have okt: "classifierOk ?t" using ok by (rule classifierOk_debounceRun)
  have "replicate (3 + Suc k) x = replicate (3 + k) x @ [x]"
    by (metis add_Suc_right replicate_Suc replicate_append_same)
  then have e: "debounceRun (replicate (3 + Suc k) x) s = debounceColor x ?t"
    by (simp add: debounceRun_snoc)
  have b: "colorBuffer (debounceColor x ?t) = [x, x, x]"
    using full_stays_full[OF okt] Suc.IH by simp
  show ?case using e b stable_when_full[OF b] by simp
qed

lemma change_needs_three:
  assumes ok: "classifierOk s" and fresh: "stableColorCount s = 0"
    and chg: "activeColor (debounceRun (ys @ [x]) s) \<noteq> activeColor (debounceRun ys s)"
  shows "(\<exists>zs. ys = zs @ [x, x]) \<and> activeColor (debounceRun (ys @ [x]) s) = x"
proof -
  let ?t = "debounceRun ys s"
  let ?t' = "debounceColor x ?t"
  have okt: "classifierOk ?t" using ok by (rule classifierOk_debounceRun)
  have "\<not> unat (stableColorCount ?t') < 3"
    using chg active_kept[of x ?t] by (auto simp: debounceRun_snoc)
  then have c3: "3 \<le> unat (stableColorCount ?t')" by simp
  then have ax: "activeColor ?t' = x" by (rule active_when_counted)
  from c3 have nz: "stableColorCount ?t' \<noteq> 0" by auto
  from count_nonzero[OF okt nz]
  have bt': "colorBuffer ?t' = [x, x, x]"
    and ct': "stableColorCount ?t' = stableColorCount ?t + 1" by simp_all
  from c3 ct' have c2: "2 \<le> unat (stableColorCount ?t)"
    using count_pred by simp
  then have nzt: "stableColorCount ?t \<noteq> 0" by auto
  then have "ys \<noteq> []" using fresh by (auto simp: debounceRun_def)
  then obtain ys1 y where ys: "ys = ys1 @ [y]" by (cases ys rule: rev_cases) auto
  let ?u = "debounceRun ys1 s"
  have oku: "classifierOk ?u" using ok by (rule classifierOk_debounceRun)
  have tu: "?t = debounceColor y ?u" by (simp add: ys debounceRun_snoc)
  from count_nonzero[OF oku, of y] nzt tu
  have bt: "colorBuffer ?t = [y, y, y]"
    and ct: "stableColorCount ?t = stableColorCount ?u + 1" by simp_all
  have xy: "x = y" using same_as_full[OF okt bt bt'] .
  from c2 ct have "1 \<le> unat (stableColorCount ?u)" using count_pred2 by simp
  then have nzu: "stableColorCount ?u \<noteq> 0" by auto
  then have "ys1 \<noteq> []" using fresh by (auto simp: debounceRun_def)
  then obtain ys2 w where ys1: "ys1 = ys2 @ [w]" by (cases ys1 rule: rev_cases) auto
  let ?v = "debounceRun ys2 s"
  have okv: "classifierOk ?v" using ok by (rule classifierOk_debounceRun)
  have uv: "?u = debounceColor w ?v" by (simp add: ys1 debounceRun_snoc)
  from count_nonzero[OF okv, of w] nzu uv
  have bu: "colorBuffer ?u = [w, w, w]" by simp
  have "colorBuffer (debounceColor y ?u) = [y, y, y]" using bt tu by simp
  then have yw: "y = w" using same_as_full[OF oku bu] by simp
  have "ys = ys2 @ [x, x]" using ys ys1 xy yw by simp
  then have "\<exists>zs. ys = zs @ [x, x]" by blast
  moreover have "activeColor (debounceRun (ys @ [x]) s) = x"
    using ax by (simp only: debounceRun_snoc)
  ultimately show ?thesis by blast
qed

text \<open>
  C1 (amended). The claim reads: after at least K = debounceCount = 3 consecutive identical
  raw classifications \<open>activeColor\<close> equals that classification, and with fewer than K
  consecutive agreements \<open>activeColor\<close> does not change. The code counts stable calls on
  top of the buffer: \<open>stableColor\<close> follows after 3 identical classifications,
  \<open>activeColor\<close> after 5 (= 2K - 1). From any state in which the buffer is well formed:
  a sequence that ends in at least 5 identical classifications \<open>x\<close> leaves
  \<open>activeColor = x\<close>; one that ends in at least 3 leaves \<open>stableColor = x\<close>; and, when the
  stability counter starts at 0 (as at boot), \<open>activeColor\<close> changes at a call only if that
  call's classification and the two before it are the same, and it changes to that value.
\<close>

theorem C1_debounce_amended:
  assumes "classifierOk s"
  shows "(5 \<le> n \<longrightarrow> activeColor (debounceRun (ys @ replicate n x) s) = x)
       \<and> (3 \<le> n \<longrightarrow> stableColor (debounceRun (ys @ replicate n x) s) = x)
       \<and> (stableColorCount s = 0
            \<longrightarrow> activeColor (debounceRun (ys @ [x]) s) \<noteq> activeColor (debounceRun ys s)
            \<longrightarrow> (\<exists>zs. ys = zs @ [x, x]) \<and> activeColor (debounceRun (ys @ [x]) s) = x)"
proof (intro conjI impI)
  have okt: "classifierOk (debounceRun ys s)"
    using assms by (rule classifierOk_debounceRun)
  { assume "5 \<le> n"
    then obtain k where "n = 5 + k" using le_Suc_ex by blast
    then show "activeColor (debounceRun (ys @ replicate n x) s) = x"
      using many_same[OF okt, of k x] by (simp add: debounceRun_append) }
  { assume "3 \<le> n"
    then obtain k where "n = 3 + k" using le_Suc_ex by blast
    then show "stableColor (debounceRun (ys @ replicate n x) s) = x"
      using stable_many[OF okt, of k x] by (simp add: debounceRun_append) }
  { assume "stableColorCount s = 0"
      and "activeColor (debounceRun (ys @ [x]) s) \<noteq> activeColor (debounceRun ys s)"
    then show "\<exists>zs. ys = zs @ [x, x]"
      and "activeColor (debounceRun (ys @ [x]) s) = x"
      using change_needs_three[OF assms] by blast+ }
qed

lemma boot_classifier:
  "classifierOk bootState" "stableColorCount bootState = 0"
  by (simp_all add: classifierOk_def bootState_def debounceCount_def)

lemma boot_four_then_five:
  "activeColor (debounceRun [1, 1, 1, 1] bootState) = 0"
  "activeColor (debounceRun [1, 1, 1, 1, 1] bootState) = 1"
  by (simp_all add: debounceRun_def debounceColor_def bootState_def debounceCount_def)

theorem C1_debounce_amended_witness:
  "classifierOk bootState
   \<and> activeColor (debounceRun ([2] @ replicate 5 1) bootState) = 1
   \<and> stableColor (debounceRun ([2] @ replicate 5 1) bootState) = 1
   \<and> activeColor (debounceRun ([1, 1, 1, 1] @ [1]) bootState)
       \<noteq> activeColor (debounceRun [1, 1, 1, 1] bootState)
   \<and> (\<exists>zs. [1, 1, 1, 1] = zs @ [1, 1 :: u8])"
proof -
  have a: "activeColor (debounceRun ([2] @ replicate 5 1) bootState) = 1
      \<and> stableColor (debounceRun ([2] @ replicate 5 1) bootState) = 1"
    using C1_debounce_amended[OF boot_classifier(1), of 5 "[2]" 1] by simp
  have chg: "activeColor (debounceRun ([1, 1, 1, 1] @ [1]) bootState)
      \<noteq> activeColor (debounceRun [1, 1, 1, 1] bootState)"
    using boot_four_then_five by simp
  have "\<exists>zs. [1, 1, 1, 1] = zs @ [1, 1 :: u8]"
    using C1_debounce_amended[OF boot_classifier(1), of 0 "[1, 1, 1, 1]" 1]
      boot_classifier(2) chg by blast
  then show ?thesis using a chg boot_classifier(1) by blast
qed

text \<open>
  C1 as stated fails: from the boot state, three consecutive classifications of colour 1
  leave \<open>activeColor\<close> at 0.
\<close>

theorem C1_three_agreements_counterexample:
  "classifierOk bootState \<and> activeColor (debounceRun [1, 1, 1] bootState) \<noteq> 1"
  by (simp add: classifierOk_def debounceRun_def debounceColor_def bootState_def
      debounceCount_def)

subsection \<open>Spike detector\<close>

text \<open>
  C5 (amended). Against baseline 40 the threshold is 64 = 40 * 1.6, and with the spike flag
  down and no fine adjustment in progress the brightness sequence 10, 10, 62, 63, 64, 11,
  10 gives the flags false, false, false, false, true, false, false: the flag is raised
  by the first reading that is at least 64, not by 62 or 63.
\<close>

theorem C5_spike_scenario_amended:
  assumes "\<not> baselineExceeded (flags2 s)" "\<not> adjustInProgress (flags5 s)"
  shows "spikeThreshold 40 = 64 \<and>
    spikeFlags 40 [10, 10, 62, 63, 64, 11, 10] s
      = [False, False, False, False, True, False, False]"
  using assms by (simp add: checkForColorSpike_def spikeThreshold_def)

theorem C5_spike_scenario_amended_witness:
  "\<not> baselineExceeded (flags2 bootState) \<and> \<not> adjustInProgress (flags5 bootState)
   \<and> spikeFlags 40 [10, 10, 62, 63, 64, 11, 10] bootState
      = [False, False, False, False, True, False, False]"
proof -
  have h: "\<not> baselineExceeded (flags2 bootState)" "\<not> adjustInProgress (flags5 bootState)"
    by (simp_all add: bootState_def noFlags2_def noFlags5_def)
  show ?thesis using C5_spike_scenario_amended[OF h] h by simp
qed

text \<open>C5 as stated fails: the flags the code returns are not the claimed sequence.\<close>

theorem C5_spike_scenario_counterexample:
  "spikeFlags 40 [10, 10, 62, 63, 64, 11, 10] bootState
     \<noteq> [False, False, True, True, True, False, False]"
  by (simp add: checkForColorSpike_def spikeThreshold_def bootState_def noFlags2_def
      noFlags5_def)

subsection \<open>Calibration store\<close>















subsection \<open>Range of the classified identities\<close>

lemma closest_fold_bound:
  "fst acc < n \<Longrightarrow> list_all (\<lambda>i. i < n) js
   \<Longrightarrow> fst (foldl (closestStep distances) acc js) < n"
  by (induction js arbitrary: acc) (simp_all add: closestStep_def)

lemma closestColorOf_bound: "unat (closestColorOf distances) < TOTAL_COLORS"
proof -
  have "list_all (\<lambda>i. i < TOTAL_COLORS) [1..<TOTAL_COLORS]"
    by (simp add: list_all_iff)
  then have b: "fst (foldl (closestStep distances) (0, distances ! 0) [1..<TOTAL_COLORS])
      < TOTAL_COLORS"
    by (intro closest_fold_bound) (simp_all add: TOTAL_COLORS_def NUM_PLAYER_COLORS_def)
  then have "fst (foldl (closestStep distances) (0, distances ! 0) [1..<TOTAL_COLORS]) < 256"
    by (simp add: TOTAL_COLORS_def NUM_PLAYER_COLORS_def)
  then show ?thesis using b
    by (simp add: closestColorOf_def unat_of_nat)
qed

lemma debounceColor_valid:
  "unat c < TOTAL_COLORS \<Longrightarrow> validColors s \<Longrightarrow> validColors (debounceColor c s)"
  by (simp add: validColors_def debounceColor_def Let_def)

text \<open>
  C10. The nearest-centroid search of \<open>colorRead\<close> only returns indices below
  \<open>TOTAL_COLORS\<close>, whatever the distances are; \<open>stableColor\<close> and \<open>activeColor\<close> are
  valid indices at boot, and every call of \<open>colorRead\<close>, with any sensor reading and any
  baseline, keeps them so. (\<open>colorRead\<close> is the only function of the model that writes the
  two variables.)
\<close>

theorem C10_classifier_range:
  "validColors bootState
   \<and> unat (closestColorOf distances) < TOTAL_COLORS
   \<and> (validColors s \<longrightarrow> validColors (colorRead bl s))"
proof (intro conjI impI)
  show "validColors bootState"
    by (simp add: validColors_def bootState_def TOTAL_COLORS_def)
  show "unat (closestColorOf distances) < TOTAL_COLORS"
    by (rule closestColorOf_bound)
  assume v: "validColors s"
  obtain smp s1 where g: "getRawData s = (smp, s1)" by (cases "getRawData s")
  obtain spike s2 where c: "checkForColorSpike (rawC smp) bl s1 = (spike, s2)"
    by (cases "checkForColorSpike (rawC smp) bl s1")
  have "validColors s1" using v g by (auto simp: getRawData_def validColors_def)
  then have "validColors s2"
    using c by (auto simp: checkForColorSpike_def validColors_def Let_def split: if_splits)
  then have "validColors (s2\<lparr>flags2 := (flags2 s2)\<lparr>baselineExceeded := spike\<rparr>\<rparr>)"
    by (simp add: validColors_def)
  then show "validColors (colorRead bl s)"
    using g c closestColorOf_bound by (simp add: colorRead_def debounceColor_valid)
qed

theorem C10_classifier_range_witness:
  "validColors bootState \<and> validColors (colorRead 40 bootState)"
  using C10_classifier_range[of "[]" bootState 40] by blast

subsection \<open>When \<open>cardDealt\<close> can be raised\<close>

lemma pollCraw_facts:
  "throwingCard (flags1 (pollCraw s)) = throwingCard (flags1 s)"
  "slideStep (pollCraw s) = slideStep s"
  "cardDealt (flags1 (pollCraw s)) \<Longrightarrow> cardDealt (flags1 s)"
  "currentToolsMenu (pollCraw s) = currentToolsMenu s"
  "consecutiveDeals (pollCraw s) = consecutiveDeals s"
  by (auto simp: pollCraw_def millis_def digitalRead_CARD_SENS_def Let_def split: if_splits)

lemma slideCard_facts:
  assumes "slideCard a s = (a', s1)"
  shows "cardDealt (flags1 s1) \<Longrightarrow> \<not> cardDealt (flags1 s) \<Longrightarrow> slideStep s = 3"
    and "throwingCard (flags1 s1) \<Longrightarrow> throwingCard (flags1 s)"
    and "cardLeftCraw (flags3 s1) \<Longrightarrow> cardLeftCraw (flags3 s)"
    and "slideStep s1 = 1 \<or> slideStep s1 = 2 \<or> slideStep s1 = 3 \<Longrightarrow>
           slideStep s = 1 \<or> slideStep s = 2 \<or> slideStep s = 3 \<or> cardLeftCraw (flags3 s)"
    and "currentToolsMenu s1 = currentToolsMenu s"
    and "consecutiveDeals s1 = consecutiveDeals s"
  using assms by (auto simp: slideCard_def millis_def Let_def split: if_splits)

lemma struggle_facts:
  "flags1 (updateDisplay ((stopScrollText x)\<lparr>currentDisplayState := STRUGGLE\<rparr>)) = flags1 x"
  "slideStep (updateDisplay ((stopScrollText x)\<lparr>currentDisplayState := STRUGGLE\<rparr>)) = slideStep x"
  "cardLeftCraw (flags3 (updateDisplay ((stopScrollText x)\<lparr>currentDisplayState := STRUGGLE\<rparr>)))
     = cardLeftCraw (flags3 x)"
  "currentToolsMenu (updateDisplay ((stopScrollText x)\<lparr>currentDisplayState := STRUGGLE\<rparr>))
     = currentToolsMenu x"
  "consecutiveDeals (updateDisplay ((stopScrollText x)\<lparr>currentDisplayState := STRUGGLE\<rparr>))
     = consecutiveDeals x"
  by (simp_all add: updateDisplay_frame stopScrollText_def)

lemma dispensingPart_dealt:
  assumes "dispensingPart ct a s = (a', s1)" "cardDealt (flags1 s1)" "\<not> cardDealt (flags1 s)"
  shows "throwingCard (flags1 s) \<and> slideStep s = 3"
proof (cases "throwingCard (flags1 s)")
  case False
  with assms show ?thesis
    by (auto simp: dispensingPart_def prepareForDeal_def millis_def)
next
  case True
  obtain b x where sc: "slideCard a (pollCraw s) = (b, x)" by (cases "slideCard a (pollCraw s)")
  from assms True sc have "cardDealt (flags1 x)"
    by (auto simp: dispensingPart_def struggle_facts split: if_splits)
  moreover from assms(3) have "\<not> cardDealt (flags1 (pollCraw s))"
    using pollCraw_facts(3) by blast
  ultimately have "slideStep (pollCraw s) = 3" using slideCard_facts(1)[OF sc] by blast
  with True show ?thesis by (simp add: pollCraw_facts)
qed

lemma dispensingPart_pending:
  assumes "dispensingPart ct a s = (a', s1)" "pending s1"
  shows "pending s
         \<or> (throwingCard (flags1 s) \<and> \<not> cardLeftCraw (flags3 s)
            \<and> cardLeftCraw (flags3 (pollCraw s)))"
proof (cases "throwingCard (flags1 s)")
  case False
  with assms show ?thesis
    by (auto simp: dispensingPart_def prepareForDeal_def millis_def pending_def)
next
  case True
  obtain b x where sc: "slideCard a (pollCraw s) = (b, x)" by (cases "slideCard a (pollCraw s)")
  from assms True sc have "pending x"
    by (auto simp: dispensingPart_def struggle_facts pending_def split: if_splits)
  then have "cardLeftCraw (flags3 (pollCraw s)) \<or> slideStep (pollCraw s) = 1
      \<or> slideStep (pollCraw s) = 2 \<or> slideStep (pollCraw s) = 3"
    using slideCard_facts(3,4)[OF sc] unfolding pending_def by blast
  with True show ?thesis unfolding pending_def by (auto simp: pollCraw_facts)
qed

lemma dispensingPart_tools:
  assumes "dispensingPart ct a s = (a', s1)"
  shows "currentToolsMenu s1 = currentToolsMenu s" and "consecutiveDeals s1 = consecutiveDeals s"
proof -
  obtain b x where sc: "slideCard a (pollCraw s) = (b, x)" by (cases "slideCard a (pollCraw s)")
  from assms sc show "currentToolsMenu s1 = currentToolsMenu s"
    using slideCard_facts(5)[OF sc]
    by (auto simp: dispensingPart_def prepareForDeal_def millis_def struggle_facts pollCraw_facts
        split: if_splits)
  from assms sc show "consecutiveDeals s1 = consecutiveDeals s"
    using slideCard_facts(6)[OF sc]
    by (auto simp: dispensingPart_def prepareForDeal_def millis_def struggle_facts pollCraw_facts
        split: if_splits)
qed

lemma resetThrowCardState_facts:
  "cardLeftCraw (flags3 (resetThrowCardState s)) = cardLeftCraw (flags3 s)"
  "throwingCard (flags1 (resetThrowCardState s)) = False"
  "cardDealt (flags1 (resetThrowCardState s)) = True"
  "consecutiveDeals (resetThrowCardState s) = consecutiveDeals s"
  by (simp_all add: resetThrowCardState_def millis_def Let_def)

lemma retractSequence_facts:
  "flags1 (retractSequence ct s) = flags1 s"
  "flags3 (retractSequence ct s) = flags3 s"
  "slideStep (retractSequence ct s) = slideStep s"
  "currentToolsMenu (retractSequence ct s) = currentToolsMenu s"
  "consecutiveDeals (retractSequence ct s) = consecutiveDeals s"
  by (simp_all add: retractSequence_def Let_def)

lemma handleThrowingTimeout_dealt:
  assumes "cardDealt (flags1 (handleThrowingTimeout ct s))" "\<not> cardDealt (flags1 s)"
  shows "retractCompleted (retractSequence ct s) \<and> currentToolsMenu s \<noteq> 2"
  using assms
  by (auto simp: handleThrowingTimeout_def Let_def updateDisplay_frame retractSequence_facts
      split: if_splits)

lemma handleThrowingTimeout_pending:
  assumes "pending (handleThrowingTimeout ct s)"
  shows "pending s"
  using assms
  by (auto simp: handleThrowingTimeout_def Let_def updateDisplay_frame retractSequence_facts
      pending_def resetThrowCardState_facts split: if_splits)

lemma handleThrowingTimeout_counter:
  "consecutiveDeals (handleThrowingTimeout ct s) = consecutiveDeals s"
  by (simp add: handleThrowingTimeout_def Let_def updateDisplay_frame retractSequence_facts
      resetThrowCardState_facts)

lemma step_dealt:
  assumes "cardDispensingActions a s = (a', s')" "cardDealt (flags1 s')" "\<not> cardDealt (flags1 s)"
  shows "pending s \<or> timeoutReset a s"
proof -
  obtain ct s0 where m: "millis s = (ct, s0)" by (cases "millis s")
  obtain b s1 where d: "dispensingPart ct a s0 = (b, s1)" by (cases "dispensingPart ct a s0")
  from m have same: "flags1 s0 = flags1 s" "flags3 s0 = flags3 s" "slideStep s0 = slideStep s"
    by (auto simp: millis_def)
  from assms(1) m d have s': "s' = handleThrowingTimeout ct s1"
    by (simp add: cardDispensingActions_def)
  show ?thesis
  proof (cases "cardDealt (flags1 s1)")
    case True
    from dispensingPart_dealt[OF d True] assms(3) same
    show ?thesis by (simp add: pending_def)
  next
    case False
    from handleThrowingTimeout_dealt[of ct s1] assms(2) s' False
    have "retractCompleted (retractSequence ct s1) \<and> currentToolsMenu s1 \<noteq> 2" by simp
    with m d show ?thesis by (simp add: timeoutReset_def)
  qed
qed

lemma step_pending:
  assumes "cardDispensingActions a s = (a', s')" "pending s'"
  shows "pending s \<or> beamExit s"
proof -
  obtain ct s0 where m: "millis s = (ct, s0)" by (cases "millis s")
  obtain b s1 where d: "dispensingPart ct a s0 = (b, s1)" by (cases "dispensingPart ct a s0")
  from m have same: "flags1 s0 = flags1 s" "flags3 s0 = flags3 s" "slideStep s0 = slideStep s"
    by (auto simp: millis_def)
  from assms(1) m d have s': "s' = handleThrowingTimeout ct s1"
    by (simp add: cardDispensingActions_def)
  with assms(2) have "pending s1" using handleThrowingTimeout_pending by blast
  from dispensingPart_pending[OF d this] same m show ?thesis
    by (auto simp: pending_def beamExit_def)
qed

lemma step_counter:
  assumes "cardDispensingActions a s = (a', s')"
  shows "consecutiveDeals s' = consecutiveDeals s"
proof -
  obtain ct s0 where m: "millis s = (ct, s0)" by (cases "millis s")
  obtain b s1 where d: "dispensingPart ct a s0 = (b, s1)" by (cases "dispensingPart ct a s0")
  from m have same: "consecutiveDeals s0 = consecutiveDeals s" by (auto simp: millis_def)
  from assms(1) m d have s': "s' = handleThrowingTimeout ct s1"
    by (simp add: cardDispensingActions_def)
  with dispensingPart_tools(2)[OF d] same show ?thesis
    by (simp add: handleThrowingTimeout_counter)
qed

lemma loop_dealt:
  "dispenseLoop n a s = Some s' \<Longrightarrow> \<not> cardDealt (flags1 s) \<Longrightarrow> cardDealt (flags1 s')
    \<Longrightarrow> pending s \<or> exitSeen n a s \<or> resetSeen n a s"
proof (induction n arbitrary: a s)
  case 0
  then show ?case by (simp split: if_splits)
next
  case (Suc n)
  obtain a1 s1 where st: "cardDispensingActions a s = (a1, s1)"
    by (cases "cardDispensingActions a s")
  show ?case
  proof (cases "errorInProgress (flags4 s1)")
    case True
    with Suc.prems st have "s' = s1" by simp
    with Suc.prems st step_dealt[OF st] show ?thesis by auto
  next
    case False
    with Suc.prems st have run: "dispenseLoop n a1 s1 = Some s'" by simp
    show ?thesis
    proof (cases "cardDealt (flags1 s1)")
      case True
      from step_dealt[OF st True Suc.prems(2)] st Suc.prems(2) show ?thesis by auto
    next
      case dealt: False
      from Suc.IH[OF run dealt Suc.prems(3)]
      have "pending s1 \<or> exitSeen n a1 s1 \<or> resetSeen n a1 s1" .
      with step_pending[OF st] st Suc.prems(2) False show ?thesis by auto
    qed
  qed
qed

lemma loop_counter:
  "dispenseLoop n a s = Some s' \<Longrightarrow> consecutiveDeals s' = consecutiveDeals s"
proof (induction n arbitrary: a s)
  case 0
  then show ?case by (simp split: if_splits)
next
  case (Suc n)
  obtain a1 s1 where st: "cardDispensingActions a s = (a1, s1)"
    by (cases "cardDispensingActions a s")
  from Suc.prems st step_counter[OF st] Suc.IH[of a1 s1] show ?case
    by (auto split: if_splits)
qed

lemma dealFace_facts:
  "flags1 (dealFace s) = flags1 s"
  "cardLeftCraw (flags3 (dealFace s)) = cardLeftCraw (flags3 s)"
  "slideStep (dealFace s) = slideStep s"
  "consecutiveDeals (dealFace s) = consecutiveDeals s"
  by (simp_all add: dealFace_def updateDisplay_frame)

subsection \<open>Two runs of the dispensing loop\<close>

lemmas call_defs = afterCall_def amountAfterCall_def cardDispensingActions_def
  dispensingPart_def prepareForDeal_def pollCraw_def slideCard_def handleThrowingTimeout_def
  retractSequence_def resetThrowCardState_def millis_def digitalRead_CARD_SENS_def
  updateDisplay_def displaySwitch_def stopScrollText_def updateScrollText_def tape_def
  throwExpiration_def retractDuration_def debounceInterval_def reverseFeedTime_def
  expressionDuration_def Let_def beamExit_def timeoutReset_def

lemma tapes_afterCall:
  "clock (afterCall a s) = clock s" "crawPin (afterCall a s) = crawPin s"
proof -
  obtain ct s0 where m: "millis s = (ct, s0)" by (cases "millis s")
  obtain b s1 where d: "dispensingPart ct a s0 = (b, s1)" by (cases "dispensingPart ct a s0")
  obtain c x where sc: "slideCard a (pollCraw s0) = (c, x)" by (cases "slideCard a (pollCraw s0)")
  have p: "clock (pollCraw s0) = clock s0" "crawPin (pollCraw s0) = crawPin s0"
    by (auto simp: pollCraw_def millis_def digitalRead_CARD_SENS_def Let_def split: if_splits)
  from sc have x: "clock x = clock (pollCraw s0)" "crawPin x = crawPin (pollCraw s0)"
    by (auto simp: slideCard_def millis_def Let_def split: if_splits)
  from d sc x p have s1: "clock s1 = clock s0" "crawPin s1 = crawPin s0"
    by (auto simp: dispensingPart_def prepareForDeal_def millis_def updateDisplay_frame
        stopScrollText_def split: if_splits)
  have h: "clock (handleThrowingTimeout ct s1) = clock s1"
    "crawPin (handleThrowingTimeout ct s1) = crawPin s1"
    by (simp_all add: handleThrowingTimeout_def Let_def updateDisplay_frame
        retractSequence_def resetThrowCardState_def millis_def)
  from m have s0: "clock s0 = clock s" "crawPin s0 = crawPin s" by (auto simp: millis_def)
  from m d show "clock (afterCall a s) = clock s" "crawPin (afterCall a s) = crawPin s"
    by (simp_all add: afterCall_def cardDispensingActions_def h s1 s0)
qed

lemma dispenseLoop_Suc:
  "\<not> cardDealt (flags1 s) \<Longrightarrow> \<not> errorInProgress (flags4 (afterCall a s))
    \<Longrightarrow> dispenseLoop (Suc n) a s = dispenseLoop n (amountAfterCall a s) (afterCall a s)"
  by (cases "cardDispensingActions a s") (simp add: afterCall_def amountAfterCall_def)

lemma dispenseLoop_done: "cardDealt (flags1 s) \<Longrightarrow> dispenseLoop n a s = Some s"
  by (cases n) simp_all

lemma exitSeen_Suc:
  "\<not> cardDealt (flags1 s) \<Longrightarrow> \<not> errorInProgress (flags4 (afterCall a s))
    \<Longrightarrow> exitSeen (Suc n) a s
        = (beamExit s \<or> exitSeen n (amountAfterCall a s) (afterCall a s))"
  by (cases "cardDispensingActions a s") (simp add: afterCall_def amountAfterCall_def)

lemma exitSeen_done: "cardDealt (flags1 s) \<Longrightarrow> exitSeen n a s = False"
  by (cases n) simp_all

lemma resetSeen_Suc:
  "\<not> cardDealt (flags1 s) \<Longrightarrow> \<not> errorInProgress (flags4 (afterCall a s))
    \<Longrightarrow> resetSeen (Suc n) a s
        = (timeoutReset a s \<or> resetSeen n (amountAfterCall a s) (afterCall a s))"
  by (cases "cardDispensingActions a s") (simp add: afterCall_def amountAfterCall_def)

lemma dispenseViewD:
  assumes "dispenseView s = ((t, d, l, e, h, m), (st, pst, tm, k), ts, rs, (x, y), ats)"
  shows "throwingCard (flags1 s) = t" "cardDealt (flags1 s) = d"
    "errorInProgress (flags4 s) = e" "consecutiveDeals s = k" "currentDisplayState s = x"
  using assms by (simp_all add: dispenseView_def)

lemma first_call:
  assumes "dispenseView s = ((False, False, False, False, False, False), (0, 255, 0, 0),
      (0, 0, 0, 0, 0), (False, False, True), (INTRO_ANIM, DISPLAY_UNSET), 0, 0)"
    and "clock s 0 = 1000" "clock s 1 = 1000"
  shows "dispenseView (afterCall 1 s) = ((True, False, False, False, False, False),
      (0, 255, 0, 0), (1000, 0, 0, 0, 0), (False, False, True),
      (INTRO_ANIM, DISPLAY_UNSET), 2, 0)"
    and "amountAfterCall 1 s = 1" and "\<not> beamExit s"
  using assms by (simp_all add: dispenseView_def call_defs)

lemma stalled_2:
  assumes "dispenseView s = ((True, False, False, False, False, False),
      (0, 255, 0, 0), (1000, 0, 0, 0, 0), (False, False, True),
      (INTRO_ANIM, DISPLAY_UNSET), 2, 0)"
    and "clock s = tape [1000, 1000, 5000, 5000, 5000, 5000, 6000, 6000, 6000, 6000, 6000] 6000"
    and "crawPin s = (\<lambda>_. True)"
  shows "dispenseView (afterCall 1 s) = ((True, False, False, False, False, False),
      (0, 0, 0, 0), (1000, 5000, 5000, 5000, 5000), (True, False, True),
      (STRUGGLE, STRUGGLE), 6, 1)"
    and "amountAfterCall 1 s = 1" and "\<not> beamExit s"
  using assms by (simp_all add: dispenseView_def call_defs)

lemma stalled_3:
  assumes "dispenseView s = ((True, False, False, False, False, False),
      (0, 0, 0, 0), (1000, 5000, 5000, 5000, 5000), (True, False, True),
      (STRUGGLE, STRUGGLE), 6, 1)"
    and "clock s = tape [1000, 1000, 5000, 5000, 5000, 5000, 6000, 6000, 6000, 6000, 6000] 6000"
    and "crawPin s = (\<lambda>_. True)"
  shows "dispenseView (afterCall 1 s) = ((False, True, False, False, False, False),
      (0, 255, 0, 0), (1000, 5000, 6000, 5000, 6000), (False, False, True),
      (STRUGGLE, STRUGGLE), 12, 2)"
    and "\<not> beamExit s" and "timeoutReset 1 s"
  using assms by (simp_all add: dispenseView_def call_defs)

lemma passing_2:
  assumes "dispenseView s = ((True, False, False, False, False, False),
      (0, 255, 0, 0), (1000, 0, 0, 0, 0), (False, False, True),
      (INTRO_ANIM, DISPLAY_UNSET), 2, 0)"
    and "clock s = tape [1000, 1000, 1100, 1100, 1100, 1100, 1200, 1200, 1200,
                    1300, 1300, 1300, 1800, 1800, 1800, 2000, 2000, 2000] 2000"
    and "crawPin s = tape [False] True"
  shows "dispenseView (afterCall 1 s) = ((True, False, False, False, False, False),
      (0, 0, 0, 0), (1000, 1100, 1100, 0, 1100), (False, False, False),
      (STRUGGLE, STRUGGLE), 6, 1)"
    and "amountAfterCall 1 s = 1"
  using assms by (simp_all add: dispenseView_def call_defs)

lemma passing_3:
  assumes "dispenseView s = ((True, False, False, False, False, False),
      (0, 0, 0, 0), (1000, 1100, 1100, 0, 1100), (False, False, False),
      (STRUGGLE, STRUGGLE), 6, 1)"
    and "clock s = tape [1000, 1000, 1100, 1100, 1100, 1100, 1200, 1200, 1200,
                    1300, 1300, 1300, 1800, 1800, 1800, 2000, 2000, 2000] 2000"
    and "crawPin s = tape [False] True"
  shows "dispenseView (afterCall 1 s) = ((True, False, False, False, False, False),
      (1, 0, 0, 0), (1000, 1100, 1200, 0, 1100), (False, False, True),
      (STRUGGLE, STRUGGLE), 9, 2)"
    and "amountAfterCall 1 s = 0" and "beamExit s"
  using assms by (simp_all add: dispenseView_def call_defs)

lemma passing_4:
  assumes "dispenseView s = ((True, False, False, False, False, False),
      (1, 0, 0, 0), (1000, 1100, 1200, 0, 1100), (False, False, True),
      (STRUGGLE, STRUGGLE), 9, 2)"
    and "clock s = tape [1000, 1000, 1100, 1100, 1100, 1100, 1200, 1200, 1200,
                    1300, 1300, 1300, 1800, 1800, 1800, 2000, 2000, 2000] 2000"
    and "crawPin s = tape [False] True"
  shows "dispenseView (afterCall 0 s) = ((True, False, False, False, False, False),
      (2, 0, 0, 0), (1000, 1300, 1300, 0, 1100), (False, False, True),
      (STRUGGLE, STRUGGLE), 12, 3)"
    and "amountAfterCall 0 s = 0"
  using assms by (simp_all add: dispenseView_def call_defs)

lemma passing_5:
  assumes "dispenseView s = ((True, False, False, False, False, False),
      (2, 0, 0, 0), (1000, 1300, 1300, 0, 1100), (False, False, True),
      (STRUGGLE, STRUGGLE), 12, 3)"
    and "clock s = tape [1000, 1000, 1100, 1100, 1100, 1100, 1200, 1200, 1200,
                    1300, 1300, 1300, 1800, 1800, 1800, 2000, 2000, 2000] 2000"
    and "crawPin s = tape [False] True"
  shows "dispenseView (afterCall 0 s) = ((True, False, False, False, False, False),
      (3, 2, 0, 0), (1000, 1800, 1800, 0, 2000), (False, False, True),
      (STRUGGLE, STRUGGLE), 16, 4)"
    and "amountAfterCall 0 s = 0"
  using assms by (simp_all add: dispenseView_def call_defs)

lemma passing_6:
  assumes "dispenseView s = ((True, False, False, False, False, False),
      (3, 2, 0, 0), (1000, 1800, 1800, 0, 2000), (False, False, True),
      (STRUGGLE, STRUGGLE), 16, 4)"
    and "clock s = tape [1000, 1000, 1100, 1100, 1100, 1100, 1200, 1200, 1200,
                    1300, 1300, 1300, 1800, 1800, 1800, 2000, 2000, 2000] 2000"
    and "crawPin s = tape [False] True"
  shows "dispenseView (afterCall 0 s) = ((False, True, False, False, False, False),
      (0, 255, 0, 0), (1000, 1800, 2000, 0, 2000), (False, False, True),
      (STRUGGLE, STRUGGLE), 19, 5)"
  using assms by (simp_all add: dispenseView_def call_defs)

lemma boot_view:
  "dispenseView bootState = ((False, False, False, False, False, False), (0, 255, 0, 0),
      (0, 0, 0, 0, 0), (False, False, True), (INTRO_ANIM, DISPLAY_UNSET), 0, 0)"
  by (simp add: dispenseView_def bootState_def noFlags1_def noFlags3_def noFlags4_def
      noFlags5_def)

lemma stalled_run:
  "dealSingleCard 3 1 stalledDeal = Some (afterCall 1 (afterCall 1 (afterCall 1 stalledDeal)))"
  "cardDealt (flags1 (afterCall 1 (afterCall 1 (afterCall 1 stalledDeal))))"
  "\<not> exitSeen 3 1 (dealFace stalledDeal)"
  "resetSeen 3 1 (dealFace stalledDeal)"
proof -
  define s1 where "s1 = afterCall 1 stalledDeal"
  define s2 where "s2 = afterCall 1 s1"
  define s3 where "s3 = afterCall 1 s2"
  note names = s1_def[symmetric] s2_def[symmetric] s3_def[symmetric]
  have v0: "dispenseView stalledDeal = ((False, False, False, False, False, False),
      (0, 255, 0, 0), (0, 0, 0, 0, 0), (False, False, True), (INTRO_ANIM, DISPLAY_UNSET), 0, 0)"
    using boot_view by (simp add: dispenseView_def stalledDeal_def)
  have c0: "clock stalledDeal
      = tape [1000, 1000, 5000, 5000, 5000, 5000, 6000, 6000, 6000, 6000, 6000] 6000"
    and p0: "crawPin stalledDeal = (\<lambda>_. True)"
    by (simp_all add: stalledDeal_def bootState_def)
  have c: "clock s1 = clock stalledDeal" "clock s2 = clock stalledDeal"
    and p: "crawPin s1 = crawPin stalledDeal" "crawPin s2 = crawPin stalledDeal"
    by (simp_all add: s1_def s2_def tapes_afterCall)
  have c01: "clock stalledDeal 0 = 1000" "clock stalledDeal 1 = 1000"
    by (simp_all add: c0 tape_def)
  note r1 = first_call[OF v0 c01, folded s1_def]
  note r2 = stalled_2[OF r1(1) c(1)[unfolded c0] p(1)[unfolded p0], folded s2_def]
  note r3 = stalled_3[OF r2(1) c(2)[unfolded c0] p(2)[unfolded p0], folded s3_def]
  have face: "dealFace stalledDeal = stalledDeal"
    by (simp add: dealFace_def dispenseViewD(5)[OF v0])
  have three: "(3::nat) = Suc (Suc (Suc 0))" by simp
  have loop: "dispenseLoop 3 1 stalledDeal = Some s3"
    unfolding three
    using dispenseViewD[OF v0] dispenseViewD[OF r1(1)] dispenseViewD[OF r2(1)]
      dispenseViewD[OF r3(1)] r1(2) r2(2)
    by (simp add: dispenseLoop_Suc dispenseLoop_done names del: dispenseLoop.simps)
  show "dealSingleCard 3 1 stalledDeal = Some (afterCall 1 (afterCall 1 (afterCall 1 stalledDeal)))"
    using loop dispenseViewD(4)[OF v0]
    by (simp add: dealSingleCard_def face s1_def s2_def s3_def)
  show "cardDealt (flags1 (afterCall 1 (afterCall 1 (afterCall 1 stalledDeal))))"
    using dispenseViewD(2)[OF r3(1)] by (simp add: s1_def s2_def s3_def)
  show "\<not> exitSeen 3 1 (dealFace stalledDeal)"
    unfolding three face
    using dispenseViewD[OF v0] dispenseViewD[OF r1(1)] dispenseViewD[OF r2(1)]
      dispenseViewD[OF r3(1)] r1(2,3) r2(2,3) r3(2)
    by (simp add: exitSeen_Suc names del: exitSeen.simps(2))
  show "resetSeen 3 1 (dealFace stalledDeal)"
    unfolding three face
    using dispenseViewD[OF v0] dispenseViewD[OF r1(1)] dispenseViewD[OF r2(1)]
      dispenseViewD[OF r3(1)] r1(2) r2(2) r3(3)
    by (simp add: resetSeen_Suc names del: resetSeen.simps(2))
qed

lemma passing_run:
  "dealSingleCard 6 1 passingDeal
    = Some (afterCall 0 (afterCall 0 (afterCall 0
        (afterCall 1 (afterCall 1 (afterCall 1 passingDeal))))))"
  "cardDealt (flags1 (afterCall 0 (afterCall 0 (afterCall 0
        (afterCall 1 (afterCall 1 (afterCall 1 passingDeal)))))))"
  "consecutiveDeals (afterCall 0 (afterCall 0 (afterCall 0
        (afterCall 1 (afterCall 1 (afterCall 1 passingDeal)))))) = 0"
proof -
  define s1 where "s1 = afterCall 1 passingDeal"
  define s2 where "s2 = afterCall 1 s1"
  define s3 where "s3 = afterCall 1 s2"
  define s4 where "s4 = afterCall 0 s3"
  define s5 where "s5 = afterCall 0 s4"
  define s6 where "s6 = afterCall 0 s5"
  note names = s1_def[symmetric] s2_def[symmetric] s3_def[symmetric] s4_def[symmetric]
    s5_def[symmetric] s6_def[symmetric]
  have v0: "dispenseView passingDeal = ((False, False, False, False, False, False),
      (0, 255, 0, 0), (0, 0, 0, 0, 0), (False, False, True), (INTRO_ANIM, DISPLAY_UNSET), 0, 0)"
    using boot_view by (simp add: dispenseView_def passingDeal_def)
  have c0: "clock passingDeal = tape [1000, 1000, 1100, 1100, 1100, 1100, 1200, 1200, 1200,
                    1300, 1300, 1300, 1800, 1800, 1800, 2000, 2000, 2000] 2000"
    and p0: "crawPin passingDeal = tape [False] True"
    by (simp_all add: passingDeal_def)
  have c: "clock s1 = clock passingDeal" "clock s2 = clock passingDeal"
    "clock s3 = clock passingDeal" "clock s4 = clock passingDeal" "clock s5 = clock passingDeal"
    and p: "crawPin s1 = crawPin passingDeal" "crawPin s2 = crawPin passingDeal"
    "crawPin s3 = crawPin passingDeal" "crawPin s4 = crawPin passingDeal"
    "crawPin s5 = crawPin passingDeal"
    by (simp_all add: s1_def s2_def s3_def s4_def s5_def tapes_afterCall)
  have c01: "clock passingDeal 0 = 1000" "clock passingDeal 1 = 1000"
    by (simp_all add: c0 tape_def)
  note r1 = first_call[OF v0 c01, folded s1_def]
  note r2 = passing_2[OF r1(1) c(1)[unfolded c0] p(1)[unfolded p0], folded s2_def]
  note r3 = passing_3[OF r2(1) c(2)[unfolded c0] p(2)[unfolded p0], folded s3_def]
  note r4 = passing_4[OF r3(1) c(3)[unfolded c0] p(3)[unfolded p0], folded s4_def]
  note r5 = passing_5[OF r4(1) c(4)[unfolded c0] p(4)[unfolded p0], folded s5_def]
  note r6 = passing_6[OF r5(1) c(5)[unfolded c0] p(5)[unfolded p0], folded s6_def]
  have face: "dealFace passingDeal = passingDeal"
    by (simp add: dealFace_def dispenseViewD(5)[OF v0])
  have six: "(6::nat) = Suc (Suc (Suc (Suc (Suc (Suc 0)))))" by simp
  have loop: "dispenseLoop 6 1 passingDeal = Some s6"
    unfolding six
    using dispenseViewD[OF v0] dispenseViewD[OF r1(1)] dispenseViewD[OF r2(1)]
      dispenseViewD[OF r3(1)] dispenseViewD[OF r4(1)] dispenseViewD[OF r5(1)]
      dispenseViewD[OF r6] r1(2) r2(2) r3(2) r4(2) r5(2)
    by (simp add: dispenseLoop_Suc dispenseLoop_done names del: dispenseLoop.simps)
  show "dealSingleCard 6 1 passingDeal
    = Some (afterCall 0 (afterCall 0 (afterCall 0
        (afterCall 1 (afterCall 1 (afterCall 1 passingDeal))))))"
    using loop dispenseViewD(4)[OF v0]
    by (simp add: dealSingleCard_def face s1_def s2_def s3_def s4_def s5_def s6_def)
  show "cardDealt (flags1 (afterCall 0 (afterCall 0 (afterCall 0
        (afterCall 1 (afterCall 1 (afterCall 1 passingDeal)))))))"
    using dispenseViewD(2)[OF r6] by (simp add: s1_def s2_def s3_def s4_def s5_def s6_def)
  show "consecutiveDeals (afterCall 0 (afterCall 0 (afterCall 0
        (afterCall 1 (afterCall 1 (afterCall 1 passingDeal)))))) = 0"
    using dispenseViewD(4)[OF r6] by (simp add: s1_def s2_def s3_def s4_def s5_def s6_def)
qed

text \<open>
  C3. While \<open>dealSingleCard\<close> runs, \<open>cardDealt\<close> is raised in two places only: by step 3
  of \<open>slideCard\<close>, which is reached only after \<open>pollCraw\<close> has seen the card leave the
  beam, and by \<open>resetThrowCardState\<close>, which \<open>handleThrowingTimeout\<close> calls when the retract
  after an expired throw has completed and the tool in use is not number 2. So a deal
  that starts with the flywheel off and ends with \<open>cardDealt\<close> up has seen one of the
  two: an exit at the beam or a completed timeout reset.
\<close>

theorem C3_cardDealt_amended:
  assumes "\<not> throwingCard (flags1 s)" and "\<not> cardDealt (flags1 s)"
    and "dealSingleCard n amount s = Some s'" and "cardDealt (flags1 s')"
  shows "exitSeen n amount (dealFace s) \<or> resetSeen n amount (dealFace s)"
proof (cases "unat (consecutiveDeals (dealFace s)) < 3")
  case True
  with assms(3) have run: "dispenseLoop n amount (dealFace s) = Some s'"
    by (simp add: dealSingleCard_def)
  from assms(2) have "\<not> cardDealt (flags1 (dealFace s))" by (simp add: dealFace_facts)
  from loop_dealt[OF run this assms(4)] assms(1) show ?thesis
    by (simp add: pending_def dealFace_facts)
next
  case False
  with assms(3) have "s' = (dealFace s)\<lparr>consecutiveDeals := 0, currentDealState := ADVANCING\<rparr>"
    by (simp add: dealSingleCard_def)
  with assms(2,4) show ?thesis by (simp add: dealFace_facts)
qed

theorem C3_cardDealt_amended_witness:
  "\<not> throwingCard (flags1 passingDeal) \<and> \<not> cardDealt (flags1 passingDeal)
   \<and> dealSingleCard 6 1 passingDeal \<noteq> None
   \<and> cardDealt (flags1 (the (dealSingleCard 6 1 passingDeal)))
   \<and> (exitSeen 6 1 (dealFace passingDeal) \<or> resetSeen 6 1 (dealFace passingDeal))"
proof -
  have start: "\<not> throwingCard (flags1 passingDeal)" "\<not> cardDealt (flags1 passingDeal)"
    by (simp_all add: passingDeal_def bootState_def noFlags1_def)
  from C3_cardDealt_amended[OF start passing_run(1) passing_run(2)] start passing_run(1,2)
  show ?thesis by simp
qed

text \<open>
  Against C3 as stated: in \<open>stalledDeal\<close> the beam never changes, the throw expires, the
  retract completes, and the deal ends with \<open>cardDealt\<close> up without any exit at the beam.
\<close>

theorem C3_timeout_sets_cardDealt_counterexample:
  "\<not> cardDealt (flags1 stalledDeal)
   \<and> dealSingleCard 3 1 stalledDeal \<noteq> None
   \<and> cardDealt (flags1 (the (dealSingleCard 3 1 stalledDeal)))
   \<and> \<not> exitSeen 3 1 (dealFace stalledDeal)
   \<and> resetSeen 3 1 (dealFace stalledDeal)"
proof -
  have "\<not> cardDealt (flags1 stalledDeal)"
    by (simp add: stalledDeal_def bootState_def noFlags1_def)
  with stalled_run show ?thesis by simp
qed

end
